theory Spec2Isabelle
  imports Main "HOL-Library.Word"
begin

section \<open>The CEP lookup service of goCep-k8s (internal/cep/service.go)\<close>

text \<open>
  The service resolves a Brazilian postal code (CEP) with the cache-aside pattern: it
  normalises the key, reads a PostgreSQL table, falls back to the ViaCEP HTTP API and
  writes the fresh answer back. This theory embeds \<^verbatim>\<open>service.go\<close> function by function.

  Go strings are byte sequences, as \<^typ>\<open>string\<close> is here (a \<^typ>\<open>char\<close> is one byte).
  The collaborators the service reaches through \<^verbatim>\<open>*sql.DB\<close> and the \<^verbatim>\<open>httpClient\<close>
  interface are fields of the service, as in the source; they are functions from the
  arguments of a call to its outcome. Every call the service makes to them is appended
  to a trace, so that what I/O a run performed can be read off the final state.
  The \<^verbatim>\<open>context.Context\<close> argument only reaches the collaborators (a cancelled context
  shows as the error they return), so it is not a parameter of the model. \<^verbatim>\<open>Ping\<close>, which
  only forwards to the database, is not modelled.
\<close>

subsection \<open>Errors\<close>

text \<open>
  \<^verbatim>\<open>ErrInvalidCEP\<close> and \<^verbatim>\<open>ErrNotFound\<close> are the package's sentinels, \<^verbatim>\<open>ErrNoRows\<close> is
  \<^verbatim>\<open>sql.ErrNoRows\<close>. \<open>ErrorString m\<close> is any other error value, with message \<open>m\<close>
  (\<^verbatim>\<open>errors.New\<close>, \<^verbatim>\<open>fmt.Errorf\<close> without \<^verbatim>\<open>%w\<close>, errors of the libraries);
  \<open>WrapError p e\<close> is \<^verbatim>\<open>fmt.Errorf(p + "%w", e)\<close>, which \<^verbatim>\<open>errors.Unwrap\<close> opens.
\<close>

datatype error =
    ErrInvalidCEP
  | ErrNotFound
  | ErrNoRows
  | ErrorString string
  | WrapError string error

text \<open>\<^verbatim>\<open>err.Error()\<close>: the message of an error.\<close>

fun Error :: "error \<Rightarrow> string" where
  "Error ErrInvalidCEP = ''invalid CEP: expected exactly 8 digits''"
| "Error ErrNotFound = ''cep not found''"
| "Error ErrNoRows = ''sql: no rows in result set''"
| "Error (ErrorString m) = m"
| "Error (WrapError p e) = p @ Error e"

text \<open>
  \<^verbatim>\<open>errors.Is(err, target)\<close>: \<open>err\<close> or an error in its chain of wrapped errors is
  \<open>target\<close>. The targets of this program are sentinels.
\<close>

fun errors_Is :: "error \<Rightarrow> error \<Rightarrow> bool" where
  "errors_Is (WrapError p e) target = (WrapError p e = target \<or> errors_Is e target)"
| "errors_Is e target = (e = target)"

text \<open>The verb \<^verbatim>\<open>%d\<close> of \<^verbatim>\<open>fmt\<close>: an integer in decimal, with a minus sign when negative.\<close>

fun fmt_nat :: "nat \<Rightarrow> string" where
  "fmt_nat n =
     (if n < 10 then [''0123456789'' ! n]
      else fmt_nat (n div 10) @ [''0123456789'' ! (n mod 10)])"

declare fmt_nat.simps [simp del]

definition fmt_d :: "int \<Rightarrow> string" where
  "fmt_d i = (if i < 0 then CHR ''-'' # fmt_nat (nat (- i)) else fmt_nat (nat i))"

subsection \<open>Time\<close>

text \<open>
  A \<^verbatim>\<open>time.Time\<close> is an instant, here in nanoseconds, and a location; a
  \<^verbatim>\<open>time.Duration\<close> is an \<^verbatim>\<open>int64\<close> of nanoseconds. \<^verbatim>\<open>Time.Sub\<close> saturates: when the
  difference does not fit a Duration it returns the largest or the smallest Duration.
  \<^verbatim>\<open>Time.UTC\<close> keeps the instant and sets the location.
\<close>

datatype location = UTC | Local

record time =
  instant :: int
  loc :: location

type_synonym Duration = "64 word"

definition maxDuration :: int where
  "maxDuration = 2 ^ 63 - 1"

definition minDuration :: int where
  "minDuration = - (2 ^ 63)"

definition time_Sub :: "time \<Rightarrow> time \<Rightarrow> Duration" where
  "time_Sub t u = word_of_int (max minDuration (min maxDuration (instant t - instant u)))"

definition time_UTC :: "time \<Rightarrow> time" where
  "time_UTC t = t\<lparr>loc := UTC\<rparr>"

text \<open>
  The ambient clock: \<open>wallclock c n\<close> is what the \<open>n\<close>-th reading of the system time
  shows, \<open>ticks c\<close> counts the readings made. A \<^verbatim>\<open>func() time.Time\<close> is a function that
  reads and advances this state; \<^verbatim>\<open>time.Now\<close> is \<open>time_Now\<close>.
\<close>

record clock_state =
  wallclock :: "nat \<Rightarrow> time"
  ticks :: nat

type_synonym clock_func = "clock_state \<Rightarrow> time \<times> clock_state"

definition time_Now :: clock_func where
  "time_Now c = (wallclock c (ticks c), c\<lparr>ticks := Suc (ticks c)\<rparr>)"

subsection \<open>The data model\<close>

text \<open>\<^verbatim>\<open>Response\<close> mirrors the JSON structure returned by ViaCEP.\<close>

record Response =
  Cep :: string
  Logradouro :: string
  Complemento :: string
  Bairro :: string
  Localidade :: string
  Uf :: string
  Ibge :: string
  Gia :: string
  DDD :: string
  Siafi :: string
  Unidade :: string
  Erro :: bool

record request =
  Method :: string
  URL :: string

record http_response =
  StatusCode :: int
  Body :: string

text \<open>
  \<^verbatim>\<open>*sql.DB\<close>, as far as the service uses it. \<open>QueryRowContext d query arg\<close> is
  \<^verbatim>\<open>d.QueryRowContext(ctx, query, arg)\<close> followed by \<^verbatim>\<open>row.Scan(&payload, &updatedAt)\<close>:
  the error of the scan, or the two columns. \<open>ExecContext d query cep payload at\<close> is
  the error of \<^verbatim>\<open>d.ExecContext(ctx, query, cep, payload, at)\<close>, \<open>None\<close> for \<^verbatim>\<open>nil\<close>.
\<close>

record sql_DB =
  QueryRowContext :: "string \<Rightarrow> string \<Rightarrow> error + (string \<times> time)"
  ExecContext :: "string \<Rightarrow> string \<Rightarrow> string \<Rightarrow> time \<Rightarrow> error option"

text \<open>
  \<^verbatim>\<open>httpClient\<close> is the subset of \<^verbatim>\<open>http.Client\<close> used by the service: \<^verbatim>\<open>Do\<close>, which
  returns an error or a response (a response with a body, as \<^verbatim>\<open>http.Client\<close> promises
  when the error is \<^verbatim>\<open>nil\<close>).
\<close>

type_synonym httpClient = "request \<Rightarrow> error + http_response"

datatype writer = StdWriter | OtherWriter nat

record Logger =
  out :: writer
  prefix :: string
  flags :: nat

definition LstdFlags :: nat where
  "LstdFlags = 3"

text \<open>
  The functions of the Go standard library whose results the service only inspects:
  \<^verbatim>\<open>json.Unmarshal\<close> into a \<^verbatim>\<open>Response\<close>, \<^verbatim>\<open>json.NewDecoder(body).Decode\<close> into a
  \<^verbatim>\<open>Response\<close> (reading the body may fail too), \<^verbatim>\<open>json.Marshal\<close> of a \<^verbatim>\<open>Response\<close>, and
  the checks of \<^verbatim>\<open>http.NewRequestWithContext\<close> on method and URL (\<open>None\<close>: accepted).
  They are parameters: every theorem below holds whatever they return.
\<close>

record stdlib =
  json_Unmarshal :: "string \<Rightarrow> error + Response"
  json_Decode :: "string \<Rightarrow> error + Response"
  json_Marshal :: "Response \<Rightarrow> error + string"
  http_request_error :: "string \<Rightarrow> string \<Rightarrow> error option"

definition http_NewRequestWithContext :: "stdlib \<Rightarrow> string \<Rightarrow> string \<Rightarrow> error + request" where
  "http_NewRequestWithContext lib method url =
     (case http_request_error lib method url of
        Some err \<Rightarrow> Inl err
      | None \<Rightarrow> Inr \<lparr>Method = method, URL = url\<rparr>)"

text \<open>\<^verbatim>\<open>Service\<close> fetches CEP details, caching them in PostgreSQL.\<close>

record Service =
  db :: sql_DB
  client :: httpClient
  cacheTTL :: Duration
  logger :: Logger
  now :: clock_func
  tableName :: string

text \<open>What a run did to the outside, in order.\<close>

datatype event =
    DBQuery string string
  | DBExec string string string time
  | HTTPDo request
  | BodyClose
  | LogPrintf Logger string

record world =
  clock :: clock_state
  trace :: "event list"

definition emit :: "event \<Rightarrow> world \<Rightarrow> world" where
  "emit e w = w\<lparr>trace := trace w @ [e]\<rparr>"

text \<open>Calling the service's clock \<^verbatim>\<open>s.now()\<close> in a world.\<close>

definition call_now :: "Service \<Rightarrow> world \<Rightarrow> time \<times> world" where
  "call_now s w = (case now s (clock w) of (t, c) \<Rightarrow> (t, w\<lparr>clock := c\<rparr>))"

subsection \<open>The operations\<close>

definition viaCepURL :: "string \<Rightarrow> string" where
  "viaCepURL cep = ''https://viacep.com.br/ws/'' @ cep @ ''/json/''"

text \<open>
  \<^verbatim>\<open>NewService\<close> builds a Service; \<^verbatim>\<open>cacheTTL <= 0\<close> disables cache expiration. A \<^verbatim>\<open>nil\<close>
  logger (\<open>None\<close>) is replaced by one on the standard writer.
\<close>

definition NewService :: "sql_DB \<Rightarrow> httpClient \<Rightarrow> Duration \<Rightarrow> Logger option \<Rightarrow> Service" where
  "NewService d c ttl lg =
     \<lparr>db = d,
      client = c,
      cacheTTL = ttl,
      logger = (case lg of
                  None \<Rightarrow> \<lparr>out = StdWriter, prefix = '''', flags = LstdFlags\<rparr>
                | Some l \<Rightarrow> l),
      now = time_Now,
      tableName = ''ceps''\<rparr>"

text \<open>
  \<^verbatim>\<open>normalizeCEP\<close> strips non-digits and validates CEP length. \<^verbatim>\<open>strings.Map\<close> walks the
  runes of the string and drops those mapped to \<open>-1\<close>; a byte in \<^verbatim>\<open>'0'..'9'\<close> is always
  a rune of its own in UTF-8 and every other rune (the replacement rune of an invalid
  byte as well) is dropped, so what remains is the digit bytes in order.
\<close>

definition isDigit :: "char \<Rightarrow> bool" where
  "isDigit r = (of_char CHR ''0'' \<le> (of_char r :: nat) \<and> (of_char r :: nat) \<le> of_char CHR ''9'')"

definition normalizeCEP :: "string \<Rightarrow> error + string" where
  "normalizeCEP v =
     (let onlyDigits = filter isDigit v
      in if length onlyDigits \<noteq> 8 then Inl ErrInvalidCEP else Inr onlyDigits)"

text \<open>\<^verbatim>\<open>formatCEP\<close> adds the canonical hyphen to 8-digit CEP strings.\<close>

definition formatCEP :: "string \<Rightarrow> string" where
  "formatCEP v = (if length v \<noteq> 8 then v else take 5 v @ ''-'' @ drop 5 v)"

definition selectQuery :: "Service \<Rightarrow> string" where
  "selectQuery s = ''SELECT payload, updated_at FROM '' @ tableName s @ '' WHERE cep = $1''"

text \<open>
  \<^verbatim>\<open>loadFromCache\<close>: \<open>Inr None\<close> is the source's \<^verbatim>\<open>(nil, nil)\<close>, a miss. The clock is read
  only when \<^verbatim>\<open>s.cacheTTL > 0\<close> (\<^verbatim>\<open>&&\<close> evaluates its right side only then).
\<close>

definition loadFromCache :: "stdlib \<Rightarrow> Service \<Rightarrow> string \<Rightarrow> world \<Rightarrow> (error + Response option) \<times> world" where
  "loadFromCache lib s cep w =
     (let query = selectQuery s;
          w1 = emit (DBQuery query cep) w
      in case QueryRowContext (db s) query cep of
           Inl err \<Rightarrow>
             if errors_Is err ErrNoRows then (Inr None, w1) else (Inl err, w1)
         | Inr (payload, updatedAt) \<Rightarrow>
             let (expired, w2) =
                   (if 0 < sint (cacheTTL s)
                    then (case call_now s w1 of
                            (t, w') \<Rightarrow> (sint (cacheTTL s) < sint (time_Sub t updatedAt), w'))
                    else (False, w1))
             in if expired then (Inr None, w2)
                else (case json_Unmarshal lib payload of
                        Inl err \<Rightarrow> (Inl err, w2)
                      | Inr resp \<Rightarrow> (Inr (Some resp), w2)))"

text \<open>
  The upsert statement of \<^verbatim>\<open>saveToCache\<close>: the raw string of the source, whose lines are
  separated by a line feed and two tabs, and which ends with a line feed and one tab.
  The timestamp \<^verbatim>\<open>s.now().UTC()\<close> is an argument of \<^verbatim>\<open>ExecContext\<close>, so the clock is read
  before the statement is sent.
\<close>

definition upsertQuery :: "Service \<Rightarrow> string" where
  "upsertQuery s =
     [CHR 0x0A, CHR 0x09, CHR 0x09] @ ''INSERT INTO '' @ tableName s @ '' (cep, payload, updated_at)''
     @ [CHR 0x0A, CHR 0x09, CHR 0x09] @ ''VALUES ($1, $2, $3)''
     @ [CHR 0x0A, CHR 0x09, CHR 0x09] @ ''ON CONFLICT (cep)''
     @ [CHR 0x0A, CHR 0x09, CHR 0x09]
     @ ''DO UPDATE SET payload = EXCLUDED.payload, updated_at = EXCLUDED.updated_at''
     @ [CHR 0x0A, CHR 0x09]"

definition saveToCache :: "stdlib \<Rightarrow> Service \<Rightarrow> string \<Rightarrow> Response \<Rightarrow> world \<Rightarrow> error option \<times> world" where
  "saveToCache lib s cep data w =
     (case json_Marshal lib data of
        Inl err \<Rightarrow> (Some err, w)
      | Inr payload \<Rightarrow>
          let query = upsertQuery s;
              (t, w1) = call_now s w;
              at = time_UTC t
          in (ExecContext (db s) query cep payload at, emit (DBExec query cep payload at) w1))"

text \<open>
  \<^verbatim>\<open>fetchFromViaCEP\<close>. The deferred \<^verbatim>\<open>resp.Body.Close()\<close> runs on every return that
  follows a response; nothing else that the trace records happens between the response
  and the return, so the event is appended as soon as the response is there.
\<close>

definition fetchFromViaCEP :: "stdlib \<Rightarrow> Service \<Rightarrow> string \<Rightarrow> world \<Rightarrow> (error + Response) \<times> world" where
  "fetchFromViaCEP lib s cep w =
     (let url = viaCepURL cep
      in case http_NewRequestWithContext lib ''GET'' url of
           Inl err \<Rightarrow> (Inl err, w)
         | Inr req \<Rightarrow>
             (let w1 = emit (HTTPDo req) w
              in (case client s req of
                    Inl err \<Rightarrow> (Inl err, w1)
                  | Inr resp \<Rightarrow>
                      (let w2 = emit BodyClose w1
                       in if StatusCode resp = 404 then (Inl ErrNotFound, w2)
                          else if 400 \<le> StatusCode resp
                          then (Inl (ErrorString (''viacep returned status '' @ fmt_d (StatusCode resp))), w2)
                          else (case json_Decode lib (Body resp) of
                                  Inl err \<Rightarrow> (Inl err, w2)
                                | Inr body \<Rightarrow>
                                    if Erro body then (Inl ErrNotFound, w2)
                                    else if Cep body = ''''
                                    then (Inr (body\<lparr>Cep := formatCEP cep\<rparr>), w2)
                                    else (Inr body, w2))))))"

text \<open>\<^verbatim>\<open>Get\<close> retrieves CEP information from cache or ViaCEP.\<close>

definition Get :: "stdlib \<Rightarrow> Service \<Rightarrow> string \<Rightarrow> world \<Rightarrow> (error + Response) \<times> world" where
  "Get lib s rawCEP w =
     (case normalizeCEP rawCEP of
        Inl err \<Rightarrow> (Inl ErrInvalidCEP, w)
      | Inr cepDigits \<Rightarrow>
          (case loadFromCache lib s cepDigits w of
             (Inl err, w1) \<Rightarrow> (Inl (WrapError ''query cache: '' err), w1)
           | (Inr (Some cached), w1) \<Rightarrow> (Inr cached, w1)
           | (Inr None, w1) \<Rightarrow>
               (case fetchFromViaCEP lib s cepDigits w1 of
                  (Inl err, w2) \<Rightarrow> (Inl err, w2)
                | (Inr fresh, w2) \<Rightarrow>
                    (case saveToCache lib s cepDigits fresh w2 of
                       (Some err, w3) \<Rightarrow>
                         (Inr fresh,
                          emit (LogPrintf (logger s)
                                  (''warn: failed to persist cep '' @ cepDigits @ '' cache: '' @ Error err)) w3)
                     | (None, w3) \<Rightarrow> (Inr fresh, w3)))))"

subsection \<open>Observing a run\<close>

text \<open>
  Counting, in the trace of a world, the requests sent to ViaCEP and the upserts sent to
  the store; \<open>new_events w w'\<close> is what a run from \<open>w\<close> to \<open>w'\<close> appended.
\<close>

fun is_provider_call :: "event \<Rightarrow> bool" where
  "is_provider_call (HTTPDo r) = True"
| "is_provider_call e = False"

fun is_store_write :: "event \<Rightarrow> bool" where
  "is_store_write (DBExec q k p t) = True"
| "is_store_write e = False"

definition provider_calls :: "world \<Rightarrow> nat" where
  "provider_calls w = length (filter is_provider_call (trace w))"

definition store_writes :: "world \<Rightarrow> nat" where
  "store_writes w = length (filter is_store_write (trace w))"

definition new_events :: "world \<Rightarrow> world \<Rightarrow> event list" where
  "new_events w w' = drop (length (trace w)) (trace w')"

text \<open>
  The errors that the collaborators of a lookup return: \<open>collaborator_returns lib s key e\<close>
  holds when \<open>e\<close> is the error of the store query for \<open>key\<close>, of deserialising the
  payload that query returned, of building the request for \<open>key\<close>, of the client's
  \<^verbatim>\<open>Do\<close> on that request, or of decoding the body of the response it returned.
\<close>

definition collaborator_returns :: "stdlib \<Rightarrow> Service \<Rightarrow> string \<Rightarrow> error \<Rightarrow> bool" where
  "collaborator_returns lib s key e =
     (QueryRowContext (db s) (selectQuery s) key = Inl e
      \<or> (case QueryRowContext (db s) (selectQuery s) key of
            Inl err \<Rightarrow> False
          | Inr (payload, updatedAt) \<Rightarrow> json_Unmarshal lib payload = Inl e)
      \<or> http_request_error lib ''GET'' (viaCepURL key) = Some e
      \<or> client s \<lparr>Method = ''GET'', URL = viaCepURL key\<rparr> = Inl e
      \<or> (case client s \<lparr>Method = ''GET'', URL = viaCepURL key\<rparr> of
            Inl err \<Rightarrow> False
          | Inr resp \<Rightarrow> json_Decode lib (Body resp) = Inl e))"

subsection \<open>Test doubles\<close>

text \<open>
  Stubs in the manner of the package's tests, used for the concrete runs below: a
  database whose query and upsert return fixed outcomes, an HTTP client that returns a
  fixed outcome (\<^verbatim>\<open>stubHTTPClient\<close>), a JSON codec that knows a few payloads, and a world whose
  system clock shows instant \<open>1000 + n\<close> at its \<open>n\<close>-th reading. \<open>zeroResponse\<close> is
  the zero value of \<^verbatim>\<open>Response\<close>.
\<close>

definition zeroResponse :: Response where
  "zeroResponse = \<lparr>Cep = '''', Logradouro = '''', Complemento = '''', Bairro = '''', Localidade = '''',
     Uf = '''', Ibge = '''', Gia = '''', DDD = '''', Siafi = '''', Unidade = '''', Erro = False\<rparr>"

definition stubDecode :: "string \<Rightarrow> error + Response" where
  \<open>stubDecode b =
     (if b = ''{"cep":"12345-678","uf":"ST"}'' then Inr (zeroResponse\<lparr>Cep := ''12345-678'', Uf := ''ST''\<rparr>)
      else if b = ''{"uf":"ST"}'' then Inr (zeroResponse\<lparr>Uf := ''ST''\<rparr>)
      else if b = ''{"erro": true}'' then Inr (zeroResponse\<lparr>Erro := True\<rparr>)
      else Inl (ErrorString ''unexpected end of JSON input''))\<close>

definition stubMarshal :: "Response \<Rightarrow> error + string" where
  \<open>stubMarshal r = Inr (''{"cep":"'' @ Cep r @ ''","uf":"'' @ Uf r @ ''"}'')\<close>

definition stubLib :: stdlib where
  "stubLib = \<lparr>json_Unmarshal = stubDecode, json_Decode = stubDecode, json_Marshal = stubMarshal,
     http_request_error = (\<lambda>method url. None)\<rparr>"

definition stubDB :: "error + (string \<times> time) \<Rightarrow> error option \<Rightarrow> sql_DB" where
  "stubDB row res = \<lparr>QueryRowContext = (\<lambda>query arg. row), ExecContext = (\<lambda>query cep payload at. res)\<rparr>"

definition stubHTTPClient :: "error + http_response \<Rightarrow> httpClient" where
  "stubHTTPClient r = (\<lambda>req. r)"

definition world0 :: world where
  "world0 = \<lparr>clock = \<lparr>wallclock = (\<lambda>n. \<lparr>instant = 1000 + int n, loc = Local\<rparr>), ticks = 0\<rparr>, trace = []\<rparr>"

definition testService :: "error + (string \<times> time) \<Rightarrow> error option \<Rightarrow> error + http_response \<Rightarrow> Duration \<Rightarrow> Service" where
  "testService row res resp ttl = NewService (stubDB row res) (stubHTTPClient resp) ttl None"

definition cachedPayload :: string where
  \<open>cachedPayload = ''{"cep":"12345-678","uf":"ST"}''\<close>

definition cachedResponse :: Response where
  "cachedResponse = zeroResponse\<lparr>Cep := ''12345-678'', Uf := ''ST''\<rparr>"

section \<open>Properties\<close>

subsection \<open>Basic facts\<close>

lemma trace_emit: "trace (emit e w) = trace w @ [e]"
  by (simp add: emit_def)

lemma clock_emit: "clock (emit e w) = clock w"
  by (simp add: emit_def)

lemma trace_call_now: "call_now s w = (t, w') \<Longrightarrow> trace w' = trace w"
  by (auto simp: call_now_def split: prod.splits)

lemma normalizeCEP_Inr:
  "normalizeCEP v = Inr d \<longleftrightarrow> d = filter isDigit v \<and> length (filter isDigit v) = 8"
  by (auto simp: normalizeCEP_def Let_def)

lemma normalizeCEP_Inl:
  "normalizeCEP v = Inl e \<longleftrightarrow> e = ErrInvalidCEP \<and> length (filter isDigit v) \<noteq> 8"
  by (auto simp: normalizeCEP_def Let_def)

subsection \<open>Traces and paths\<close>

lemma loadFromCache_trace:
  "loadFromCache lib s k w = (r, w') \<Longrightarrow> trace w' = trace w @ [DBQuery (selectQuery s) k]"
  by (auto simp: loadFromCache_def Let_def trace_emit split: sum.splits prod.splits if_splits dest: trace_call_now)

lemma saveToCache_trace:
  "saveToCache lib s k data w = (r, w') \<Longrightarrow>
     (json_Marshal lib data = Inl e \<longrightarrow> r = Some e \<and> w' = w) \<and>
     (json_Marshal lib data = Inr p \<longrightarrow> (\<exists>t. trace w' = trace w @ [DBExec (upsertQuery s) k p t]))"
  by (auto simp: saveToCache_def Let_def trace_emit split: sum.splits prod.splits if_splits dest: trace_call_now)

lemma fetchFromViaCEP_trace:
  "fetchFromViaCEP lib s k w = (r, w') \<Longrightarrow>
     trace w' = trace w \<or> trace w' = trace w @ [HTTPDo \<lparr>Method = ''GET'', URL = viaCepURL k\<rparr>]
     \<or> trace w' = trace w @ [HTTPDo \<lparr>Method = ''GET'', URL = viaCepURL k\<rparr>, BodyClose]"
  by (auto simp: fetchFromViaCEP_def http_NewRequestWithContext_def Let_def trace_emit split: sum.splits prod.splits if_splits option.splits)

lemma fetchFromViaCEP_not_Erro:
  "fetchFromViaCEP lib s k w = (Inr fresh, w') \<Longrightarrow> \<not> Erro fresh"
  by (auto simp: fetchFromViaCEP_def http_NewRequestWithContext_def Let_def split: sum.splits prod.splits if_splits option.splits)

text \<open>The outcomes of Get, path by path.\<close>

lemma Get_invalid:
  "length (filter isDigit raw) \<noteq> 8 \<Longrightarrow> Get lib s raw w = (Inl ErrInvalidCEP, w)"
  by (simp add: Get_def normalizeCEP_def Let_def)

lemma Get_read_error:
  "normalizeCEP raw = Inr key \<Longrightarrow> loadFromCache lib s key w = (Inl err, w1) \<Longrightarrow>
     Get lib s raw w = (Inl (WrapError ''query cache: '' err), w1)"
  by (simp add: Get_def)

lemma Get_hit:
  "normalizeCEP raw = Inr key \<Longrightarrow> loadFromCache lib s key w = (Inr (Some cached), w1) \<Longrightarrow>
     Get lib s raw w = (Inr cached, w1)"
  by (simp add: Get_def)

lemma Get_fetch_error:
  "normalizeCEP raw = Inr key \<Longrightarrow> loadFromCache lib s key w = (Inr None, w1) \<Longrightarrow>
   fetchFromViaCEP lib s key w1 = (Inl err, w2) \<Longrightarrow>
     Get lib s raw w = (Inl err, w2)"
  by (simp add: Get_def)

lemma Get_fetched:
  "normalizeCEP raw = Inr key \<Longrightarrow> loadFromCache lib s key w = (Inr None, w1) \<Longrightarrow>
   fetchFromViaCEP lib s key w1 = (Inr fresh, w2) \<Longrightarrow>
   saveToCache lib s key fresh w2 = (res, w3) \<Longrightarrow>
     Get lib s raw w =
       (Inr fresh,
        case res of
          None \<Rightarrow> w3
        | Some err \<Rightarrow> emit (LogPrintf (logger s)
              (''warn: failed to persist cep '' @ key @ '' cache: '' @ Error err)) w3)"
  by (simp add: Get_def split: option.splits)

lemma Get_miss_result:
  "normalizeCEP raw = Inr key \<Longrightarrow> loadFromCache lib s key w = (Inr None, w1) \<Longrightarrow>
     fst (Get lib s raw w) = fst (fetchFromViaCEP lib s key w1)"
  by (simp add: Get_def split: prod.splits sum.splits option.splits)

text \<open>What loadFromCache returns, from what the store returned.\<close>

lemma loadFromCache_no_rows:
  "QueryRowContext (db s) (selectQuery s) key = Inl err \<Longrightarrow> errors_Is err ErrNoRows \<Longrightarrow>
     loadFromCache lib s key w = (Inr None, emit (DBQuery (selectQuery s) key) w)"
  by (simp add: loadFromCache_def Let_def)

lemma loadFromCache_scan_error:
  "QueryRowContext (db s) (selectQuery s) key = Inl err \<Longrightarrow> \<not> errors_Is err ErrNoRows \<Longrightarrow>
     loadFromCache lib s key w = (Inl err, emit (DBQuery (selectQuery s) key) w)"
  by (simp add: loadFromCache_def Let_def)

lemma loadFromCache_no_ttl:
  "QueryRowContext (db s) (selectQuery s) key = Inr (payload, updatedAt) \<Longrightarrow> sint (cacheTTL s) \<le> 0 \<Longrightarrow>
     loadFromCache lib s key w =
       (case json_Unmarshal lib payload of Inl err \<Rightarrow> Inl err | Inr resp \<Rightarrow> Inr (Some resp),
        emit (DBQuery (selectQuery s) key) w)"
  by (simp add: loadFromCache_def Let_def split: sum.splits)

lemma loadFromCache_expired:
  "QueryRowContext (db s) (selectQuery s) key = Inr (payload, updatedAt) \<Longrightarrow> 0 < sint (cacheTTL s) \<Longrightarrow>
   call_now s (emit (DBQuery (selectQuery s) key) w) = (t, w1) \<Longrightarrow>
   sint (cacheTTL s) < sint (time_Sub t updatedAt) \<Longrightarrow>
     loadFromCache lib s key w = (Inr None, w1)"
  by (simp add: loadFromCache_def Let_def)

lemma loadFromCache_fresh:
  "QueryRowContext (db s) (selectQuery s) key = Inr (payload, updatedAt) \<Longrightarrow> 0 < sint (cacheTTL s) \<Longrightarrow>
   call_now s (emit (DBQuery (selectQuery s) key) w) = (t, w1) \<Longrightarrow>
   \<not> sint (cacheTTL s) < sint (time_Sub t updatedAt) \<Longrightarrow>
     loadFromCache lib s key w =
       (case json_Unmarshal lib payload of Inl err \<Rightarrow> Inl err | Inr resp \<Rightarrow> Inr (Some resp), w1)"
  by (simp add: loadFromCache_def Let_def split: sum.splits)

lemma sint_time_Sub:
  "sint (time_Sub t u) = max minDuration (min maxDuration (instant t - instant u))"
  unfolding time_Sub_def minDuration_def maxDuration_def
  by (simp add: sint_sbintrunc' signed_take_bit_int_eq_self)

subsection \<open>Normalisation\<close>

text \<open>
  Claim C9. Normalisation is idempotent: the result of a successful normalisation is a
  string of 8 digits that normalises to itself. \<^verbatim>\<open>normalizeCEP("12345-678")\<close> is
  \<^verbatim>\<open>"12345678"\<close> and \<^verbatim>\<open>normalizeCEP("12-345")\<close> fails with \<^verbatim>\<open>ErrInvalidCEP\<close>.
\<close>

theorem normalizeCEP_idempotent:
  "(normalizeCEP v = Inr d \<longrightarrow>
      normalizeCEP d = Inr d \<and> length d = 8 \<and> (\<forall>c\<in>set d. isDigit c))
   \<and> normalizeCEP ''12345-678'' = Inr ''12345678''
   \<and> normalizeCEP ''12-345'' = Inl ErrInvalidCEP"
proof -
  have twice: "normalizeCEP v = Inr d \<longrightarrow>
      normalizeCEP d = Inr d \<and> length d = 8 \<and> (\<forall>c\<in>set d. isDigit c)"
    by (auto simp: normalizeCEP_def Let_def)
  have hyphen: "normalizeCEP ''12345-678'' = Inr ''12345678''"
    by (simp add: normalizeCEP_def isDigit_def)
  have short: "normalizeCEP ''12-345'' = Inl ErrInvalidCEP"
    by (simp add: normalizeCEP_def isDigit_def)
  from twice hyphen short show ?thesis by blast
qed

theorem normalizeCEP_idempotent_witness:
  "normalizeCEP ''CEP (12) 345-678'' = Inr ''12345678''
   \<and> normalizeCEP ''12345678'' = Inr ''12345678''"
proof -
  have once: "normalizeCEP ''CEP (12) 345-678'' = Inr ''12345678''"
    by (simp add: normalizeCEP_def isDigit_def)
  from normalizeCEP_idempotent [of "''CEP (12) 345-678''" "''12345678''"] once
  have "normalizeCEP ''12345678'' = Inr ''12345678''" by blast
  with once show ?thesis by simp
qed

subsection \<open>Unfolding\<close>

lemmas stub_defs = stubLib_def stubDB_def stubHTTPClient_def world0_def stubDecode_def stubMarshal_def
  zeroResponse_def testService_def cachedPayload_def cachedResponse_def
lemmas op_defs = Get_def loadFromCache_def fetchFromViaCEP_def saveToCache_def http_NewRequestWithContext_def
  call_now_def emit_def normalizeCEP_def isDigit_def formatCEP_def viaCepURL_def selectQuery_def upsertQuery_def
  NewService_def time_Now_def time_Sub_def time_UTC_def maxDuration_def minDuration_def

subsection \<open>The paths of Get\<close>

lemma Get_cases [case_names invalid read_error hit fetch_error fetched]:
  obtains
    "length (filter isDigit raw) \<noteq> 8" and "Get lib s raw w = (Inl ErrInvalidCEP, w)"
  | key err w1 where "normalizeCEP raw = Inr key" and "loadFromCache lib s key w = (Inl err, w1)"
      and "Get lib s raw w = (Inl (WrapError ''query cache: '' err), w1)"
  | key cached w1 where "normalizeCEP raw = Inr key" and "loadFromCache lib s key w = (Inr (Some cached), w1)"
      and "Get lib s raw w = (Inr cached, w1)"
  | key w1 err w2 where "normalizeCEP raw = Inr key" and "loadFromCache lib s key w = (Inr None, w1)"
      and "fetchFromViaCEP lib s key w1 = (Inl err, w2)" and "Get lib s raw w = (Inl err, w2)"
  | key w1 fresh w2 res w3 where "normalizeCEP raw = Inr key" and "loadFromCache lib s key w = (Inr None, w1)"
      and "fetchFromViaCEP lib s key w1 = (Inr fresh, w2)" and "saveToCache lib s key fresh w2 = (res, w3)"
      and "Get lib s raw w =
             (Inr fresh,
              case res of
                None \<Rightarrow> w3
              | Some err \<Rightarrow> emit (LogPrintf (logger s)
                    (''warn: failed to persist cep '' @ key @ '' cache: '' @ Error err)) w3)"
proof (cases "normalizeCEP raw")
  case (Inl e)
  then have "length (filter isDigit raw) \<noteq> 8" by (simp add: normalizeCEP_Inl)
  then show ?thesis using that(1) Get_invalid by blast
next
  case (Inr key)
  obtain r w1 where load: "loadFromCache lib s key w = (r, w1)" by (cases "loadFromCache lib s key w")
  show ?thesis
  proof (cases r)
    case (Inl err)
    with Inr load show ?thesis using that(2) Get_read_error by blast
  next
    case r: (Inr found)
    show ?thesis
    proof (cases found)
      case (Some cached)
      with Inr load r show ?thesis using that(3) Get_hit by blast
    next
      case None
      obtain f w2 where fetch: "fetchFromViaCEP lib s key w1 = (f, w2)"
        by (cases "fetchFromViaCEP lib s key w1")
      show ?thesis
      proof (cases f)
        case (Inl err)
        with Inr load r None fetch show ?thesis using that(4) Get_fetch_error by blast
      next
        case f: (Inr fresh)
        obtain res w3 where save: "saveToCache lib s key fresh w2 = (res, w3)"
          by (cases "saveToCache lib s key fresh w2")
        from Inr load r None fetch f save show ?thesis using that(5) Get_fetched by blast
      qed
    qed
  qed
qed

lemma provider_calls_append:
  "trace w' = trace w @ es \<Longrightarrow> provider_calls w' = provider_calls w + length (filter is_provider_call es)"
  by (simp add: provider_calls_def)

lemma store_writes_append:
  "trace w' = trace w @ es \<Longrightarrow> store_writes w' = store_writes w + length (filter is_store_write es)"
  by (simp add: store_writes_def)

lemma new_events_append: "trace w' = trace w @ es \<Longrightarrow> new_events w w' = es"
  by (simp add: new_events_def)

lemma loadFromCache_counts:
  assumes "loadFromCache lib s k w = (r, w')"
  shows "provider_calls w' = provider_calls w" and "store_writes w' = store_writes w"
    and "new_events w w' = [DBQuery (selectQuery s) k]"
  using loadFromCache_trace [OF assms]
  by (simp_all add: provider_calls_def store_writes_def new_events_def)

lemma fetchFromViaCEP_store_writes:
  "fetchFromViaCEP lib s k w = (r, w') \<Longrightarrow> store_writes w' = store_writes w"
  using fetchFromViaCEP_trace [of lib s k w r w'] by (auto simp: store_writes_def)

text \<open>
  Claim C2. With a valid key, a store read that fails with an error other than
  \<^verbatim>\<open>sql.ErrNoRows\<close> makes Get return that error wrapped as a cache-read error
  (\<^verbatim>\<open>query cache: ...\<close>), and so does a payload that fails to deserialise when the row is
  read and not expired; in both cases nothing is sent to the provider or written to
  the store. A store answer that is \<^verbatim>\<open>sql.ErrNoRows\<close> is a miss: Get goes on to the
  provider fetch and returns what it returns.
\<close>

theorem Get_cache_read_error:
  assumes key: "normalizeCEP rawCEP = Inr key"
    and w1: "w1 = emit (DBQuery (selectQuery s) key) w"
  shows "(loadFromCache lib s key w = (Inl err, w') \<longrightarrow>
            Get lib s rawCEP w = (Inl (WrapError ''query cache: '' err), w')
            \<and> provider_calls w' = provider_calls w \<and> store_writes w' = store_writes w)
       \<and> (QueryRowContext (db s) (selectQuery s) key = Inl err \<and> \<not> errors_Is err ErrNoRows \<longrightarrow>
            Get lib s rawCEP w = (Inl (WrapError ''query cache: '' err), w1)
            \<and> provider_calls w1 = provider_calls w)
       \<and> (QueryRowContext (db s) (selectQuery s) key = Inr (payload, updatedAt)
            \<and> \<not> (0 < sint (cacheTTL s) \<and> sint (cacheTTL s) < sint (time_Sub (fst (call_now s w1)) updatedAt))
            \<and> json_Unmarshal lib payload = Inl err \<longrightarrow>
            fst (Get lib s rawCEP w) = Inl (WrapError ''query cache: '' err)
            \<and> provider_calls (snd (Get lib s rawCEP w)) = provider_calls w)
       \<and> (QueryRowContext (db s) (selectQuery s) key = Inl err \<and> errors_Is err ErrNoRows \<longrightarrow>
            loadFromCache lib s key w = (Inr None, w1)
            \<and> fst (Get lib s rawCEP w) = fst (fetchFromViaCEP lib s key w1))"
proof -
  have a: "Get lib s rawCEP w = (Inl (WrapError ''query cache: '' e), v)
            \<and> provider_calls v = provider_calls w \<and> store_writes v = store_writes w"
    if "loadFromCache lib s key w = (Inl e, v)" for e v
    using key that by (simp add: Get_read_error loadFromCache_counts)
  have b: "loadFromCache lib s key w = (Inl err, w1)"
    if "QueryRowContext (db s) (selectQuery s) key = Inl err \<and> \<not> errors_Is err ErrNoRows"
    using that by (simp add: loadFromCache_scan_error w1)
  have c: "\<exists>v. loadFromCache lib s key w = (Inl err, v)"
    if h: "QueryRowContext (db s) (selectQuery s) key = Inr (payload, updatedAt)
            \<and> \<not> (0 < sint (cacheTTL s) \<and> sint (cacheTTL s) < sint (time_Sub (fst (call_now s w1)) updatedAt))
            \<and> json_Unmarshal lib payload = Inl err"
  proof (cases "0 < sint (cacheTTL s)")
    case True
    obtain t w2 where clk: "call_now s w1 = (t, w2)" by (cases "call_now s w1")
    show ?thesis
      using h True clk loadFromCache_fresh [of s key payload updatedAt w t w2 lib]
      by (auto simp: w1)
  next
    case False
    then show ?thesis
      using h loadFromCache_no_ttl [of s key payload updatedAt lib w] by auto
  qed
  have d: "loadFromCache lib s key w = (Inr None, w1)
            \<and> fst (Get lib s rawCEP w) = fst (fetchFromViaCEP lib s key w1)"
    if "QueryRowContext (db s) (selectQuery s) key = Inl err \<and> errors_Is err ErrNoRows"
    using key that by (simp add: loadFromCache_no_rows Get_miss_result w1)
  have c': "fst (Get lib s rawCEP w) = Inl (WrapError ''query cache: '' err)
            \<and> provider_calls (snd (Get lib s rawCEP w)) = provider_calls w"
    if h: "QueryRowContext (db s) (selectQuery s) key = Inr (payload, updatedAt)
            \<and> \<not> (0 < sint (cacheTTL s) \<and> sint (cacheTTL s) < sint (time_Sub (fst (call_now s w1)) updatedAt))
            \<and> json_Unmarshal lib payload = Inl err"
  proof -
    from c [OF h] obtain v where "loadFromCache lib s key w = (Inl err, v)" ..
    from a [OF this] show ?thesis by simp
  qed
  from a [of err w'] a [OF b] c' d show ?thesis by blast
qed

theorem Get_cache_read_error_witness:
  "Get stubLib (testService (Inl (ErrorString ''connection refused'')) None (Inl ErrNotFound) 50) ''12345-678'' world0
     = (Inl (WrapError ''query cache: '' (ErrorString ''connection refused'')),
        emit (DBQuery ''SELECT payload, updated_at FROM ceps WHERE cep = $1'' ''12345678'') world0)
   \<and> fst (Get stubLib (testService (Inr (''{'', \<lparr>instant = 0, loc = UTC\<rparr>)) None (Inl ErrNotFound) 0) ''12345-678'' world0)
     = Inl (WrapError ''query cache: '' (ErrorString ''unexpected end of JSON input''))
   \<and> fst (Get stubLib (testService (Inl ErrNoRows) None (Inl ErrNotFound) 50) ''12345-678'' world0)
     = Inl ErrNotFound"
proof -
  let ?w1 = "emit (DBQuery ''SELECT payload, updated_at FROM ceps WHERE cep = $1'' ''12345678'') world0"
  have key: "normalizeCEP ''12345-678'' = Inr ''12345678''"
    by (simp add: normalizeCEP_def isDigit_def)
  have w1: "\<And>row res resp ttl. ?w1 = emit (DBQuery (selectQuery (testService row res resp ttl)) ''12345678'') world0"
    by (simp add: stub_defs op_defs)
  have row: "\<And>row res resp ttl. QueryRowContext (db (testService row res resp ttl))
       (selectQuery (testService row res resp ttl)) ''12345678'' = row"
    by (simp add: stub_defs op_defs)
  have ttl: "\<And>row res resp ttl. cacheTTL (testService row res resp ttl) = ttl"
    by (simp add: stub_defs op_defs)
  have bad: "json_Unmarshal stubLib ''{'' = Inl (ErrorString ''unexpected end of JSON input'')"
    by (simp add: stub_defs)
  have a: "Get stubLib (testService (Inl (ErrorString ''connection refused'')) None (Inl ErrNotFound) 50) ''12345-678'' world0
     = (Inl (WrapError ''query cache: '' (ErrorString ''connection refused'')), ?w1)"
    using Get_cache_read_error [OF key w1, where err = "ErrorString ''connection refused''"
        and lib = stubLib and row1 = "Inl (ErrorString ''connection refused'')" and res1 = None
        and resp1 = "Inl ErrNotFound" and ttl1 = 50]
    by (simp add: row)
  have b: "fst (Get stubLib (testService (Inr (''{'', \<lparr>instant = 0, loc = UTC\<rparr>)) None (Inl ErrNotFound) 0) ''12345-678'' world0)
     = Inl (WrapError ''query cache: '' (ErrorString ''unexpected end of JSON input''))"
    using Get_cache_read_error [OF key w1, where err = "ErrorString ''unexpected end of JSON input''"
        and lib = stubLib and row1 = "Inr (''{'', \<lparr>instant = 0, loc = UTC\<rparr>)" and res1 = None
        and resp1 = "Inl ErrNotFound" and ttl1 = 0 and payload = "''{''" and updatedAt = "\<lparr>instant = 0, loc = UTC\<rparr>"]
    by (simp add: row ttl bad)
  have "fst (Get stubLib (testService (Inl ErrNoRows) None (Inl ErrNotFound) 50) ''12345-678'' world0)
     = fst (fetchFromViaCEP stubLib (testService (Inl ErrNoRows) None (Inl ErrNotFound) 50) ''12345678'' ?w1)"
    using Get_cache_read_error [OF key w1, where err = ErrNoRows
        and lib = stubLib and row1 = "Inl ErrNoRows" and res1 = None
        and resp1 = "Inl ErrNotFound" and ttl1 = 50]
    by (simp add: row)
  then have c: "fst (Get stubLib (testService (Inl ErrNoRows) None (Inl ErrNotFound) 50) ''12345-678'' world0)
     = Inl ErrNotFound"
    by (simp add: stub_defs fetchFromViaCEP_def http_NewRequestWithContext_def NewService_def)
  from a b c show ?thesis by simp
qed

subsection \<open>The events of a run\<close>

lemma fetchFromViaCEP_events:
  assumes "fetchFromViaCEP lib s k w = (r, w')"
  shows "\<exists>es. trace w' = trace w @ es
           \<and> set es \<subseteq> {HTTPDo \<lparr>Method = ''GET'', URL = viaCepURL k\<rparr>, BodyClose}"
  using fetchFromViaCEP_trace [OF assms] by auto

lemma saveToCache_events:
  assumes "saveToCache lib s k data w = (r, w')"
  shows "\<exists>es. trace w' = trace w @ es
           \<and> (es = [] \<or> (\<exists>p t. json_Marshal lib data = Inr p \<and> es = [DBExec (upsertQuery s) k p t]))"
proof (cases "json_Marshal lib data")
  case (Inl e)
  with saveToCache_trace [OF assms, of e] show ?thesis by simp
next
  case (Inr p)
  with saveToCache_trace [OF assms, of _ p] show ?thesis by auto
qed

lemma Get_events:
  assumes e: "e \<in> set (new_events w (snd (Get lib s raw w)))"
  shows "\<exists>key. normalizeCEP raw = Inr key \<and>
     (e = DBQuery (selectQuery s) key
      \<or> e = HTTPDo \<lparr>Method = ''GET'', URL = viaCepURL key\<rparr>
      \<or> e = BodyClose
      \<or> (\<exists>m. e = LogPrintf (logger s) m)
      \<or> (\<exists>w1 fresh w2 p t. loadFromCache lib s key w = (Inr None, w1)
            \<and> fetchFromViaCEP lib s key w1 = (Inr fresh, w2)
            \<and> json_Marshal lib fresh = Inr p
            \<and> e = DBExec (upsertQuery s) key p t
            \<and> fst (Get lib s raw w) = Inr fresh))"
proof (cases rule: Get_cases [where raw = raw and lib = lib and s = s and w = w])
  case invalid
  with e show ?thesis by (simp add: new_events_def)
next
  case (read_error key err w1)
  with e loadFromCache_counts(3) [OF read_error(2)] show ?thesis by simp
next
  case (hit key cached w1)
  with e loadFromCache_counts(3) [OF hit(2)] show ?thesis by simp
next
  case (fetch_error key w1 err w2)
  from fetchFromViaCEP_events [OF fetch_error(3)] obtain es
    where es: "trace w2 = trace w1 @ es"
      "set es \<subseteq> {HTTPDo \<lparr>Method = ''GET'', URL = viaCepURL key\<rparr>, BodyClose}" by blast
  from es(1) loadFromCache_trace [OF fetch_error(2)]
  have "new_events w w2 = DBQuery (selectQuery s) key # es" by (simp add: new_events_def)
  with e fetch_error es(2) show ?thesis by auto
next
  case (fetched key w1 fresh w2 res w3)
  let ?w4 = "case res of None \<Rightarrow> w3
     | Some err \<Rightarrow> emit (LogPrintf (logger s)
          (''warn: failed to persist cep '' @ key @ '' cache: '' @ Error err)) w3"
  from fetchFromViaCEP_events [OF fetched(3)] obtain es
    where es: "trace w2 = trace w1 @ es"
      "set es \<subseteq> {HTTPDo \<lparr>Method = ''GET'', URL = viaCepURL key\<rparr>, BodyClose}" by blast
  from saveToCache_events [OF fetched(4)] obtain ws
    where ws: "trace w3 = trace w2 @ ws"
      "ws = [] \<or> (\<exists>p t. json_Marshal lib fresh = Inr p \<and> ws = [DBExec (upsertQuery s) key p t])" by blast
  obtain ls where ls: "trace ?w4 = trace w3 @ ls" "\<forall>l\<in>set ls. \<exists>m. l = LogPrintf (logger s) m"
    by (cases res) (simp_all add: trace_emit)
  from es(1) ws(1) ls(1) loadFromCache_trace [OF fetched(2)]
  have "new_events w ?w4 = DBQuery (selectQuery s) key # es @ ws @ ls" by (simp add: new_events_def)
  with e fetched(5) have "e = DBQuery (selectQuery s) key \<or> e \<in> set es \<or> e \<in> set ws \<or> e \<in> set ls"
    by auto
  then consider "e = DBQuery (selectQuery s) key" | "e \<in> set es" | "e \<in> set ws" | "e \<in> set ls" by blast
  then show ?thesis
  proof cases
    case 1
    with fetched(1) show ?thesis by simp
  next
    case 2
    with es(2) fetched(1) show ?thesis by auto
  next
    case 3
    with ws(2) obtain p t where "json_Marshal lib fresh = Inr p" "e = DBExec (upsertQuery s) key p t" by auto
    with fetched show ?thesis by auto
  next
    case 4
    with ls(2) fetched(1) show ?thesis by auto
  qed
qed

lemma Get_store_writes_unchanged:
  assumes "\<not> (\<exists>key w1 fresh w2. normalizeCEP raw = Inr key \<and> loadFromCache lib s key w = (Inr None, w1)
          \<and> fetchFromViaCEP lib s key w1 = (Inr fresh, w2))"
  shows "store_writes (snd (Get lib s raw w)) = store_writes w"
proof (cases rule: Get_cases [where raw = raw and lib = lib and s = s and w = w])
  case invalid
  then show ?thesis by simp
next
  case (read_error key err w1)
  with loadFromCache_counts(2) [OF read_error(2)] show ?thesis by simp
next
  case (hit key cached w1)
  with loadFromCache_counts(2) [OF hit(2)] show ?thesis by simp
next
  case (fetch_error key w1 err w2)
  with loadFromCache_counts(2) [OF fetch_error(2)] fetchFromViaCEP_store_writes [OF fetch_error(3)]
  show ?thesis by simp
next
  case (fetched key w1 fresh w2 res w3)
  with assms show ?thesis by blast
qed

lemma loadFromCache_hit:
  assumes row: "QueryRowContext (db s) (selectQuery s) key = Inr (payload, updatedAt)"
    and fresh: "\<not> (0 < sint (cacheTTL s) \<and> sint (cacheTTL s)
                    < sint (time_Sub (fst (call_now s (emit (DBQuery (selectQuery s) key) w))) updatedAt))"
    and rec: "json_Unmarshal lib payload = Inr cached"
  shows "\<exists>w1. loadFromCache lib s key w = (Inr (Some cached), w1)"
proof (cases "0 < sint (cacheTTL s)")
  case True
  obtain t w2 where clk: "call_now s (emit (DBQuery (selectQuery s) key) w) = (t, w2)"
    by (cases "call_now s (emit (DBQuery (selectQuery s) key) w)")
  with True fresh have "\<not> sint (cacheTTL s) < sint (time_Sub t updatedAt)" by simp
  from loadFromCache_fresh [OF row True clk this, of lib] rec show ?thesis by simp
next
  case False
  then have "sint (cacheTTL s) \<le> 0" by simp
  from loadFromCache_no_ttl [OF row this, of lib w] rec show ?thesis by simp
qed

subsection \<open>Cache read\<close>

lemma fetchFromViaCEP_trace_sent:
  assumes "fetchFromViaCEP lib s k w = (r, w')"
    and "http_request_error lib ''GET'' (viaCepURL k) = None"
  shows "trace w' = trace w @ [HTTPDo \<lparr>Method = ''GET'', URL = viaCepURL k\<rparr>]
       \<or> trace w' = trace w @ [HTTPDo \<lparr>Method = ''GET'', URL = viaCepURL k\<rparr>, BodyClose]"
  using assms
  by (auto simp: fetchFromViaCEP_def http_NewRequestWithContext_def Let_def trace_emit
      split: sum.splits if_splits)

lemma Get_miss_provider_call:
  assumes key: "normalizeCEP raw = Inr key"
    and miss: "loadFromCache lib s key w = (Inr None, w1)"
    and req: "http_request_error lib ''GET'' (viaCepURL key) = None"
  shows "provider_calls (snd (Get lib s raw w)) = provider_calls w + 1"
    and "HTTPDo \<lparr>Method = ''GET'', URL = viaCepURL key\<rparr> \<in> set (new_events w (snd (Get lib s raw w)))"
proof -
  let ?do = "HTTPDo \<lparr>Method = ''GET'', URL = viaCepURL key\<rparr>"
  obtain f w2 where fetch: "fetchFromViaCEP lib s key w1 = (f, w2)"
    by (cases "fetchFromViaCEP lib s key w1")
  from fetchFromViaCEP_trace_sent [OF fetch req] loadFromCache_trace [OF miss]
  have t2: "trace w2 = trace w @ [DBQuery (selectQuery s) key, ?do]
      \<or> trace w2 = trace w @ [DBQuery (selectQuery s) key, ?do, BodyClose]" by auto
  have "provider_calls (snd (Get lib s raw w)) = provider_calls w + 1
      \<and> ?do \<in> set (new_events w (snd (Get lib s raw w)))"
  proof (cases f)
    case (Inl err)
    with Get_fetch_error [OF key miss] fetch have "snd (Get lib s raw w) = w2" by simp
    with t2 show ?thesis by (auto simp: provider_calls_def new_events_def)
  next
    case (Inr fresh)
    obtain res w3 where save: "saveToCache lib s key fresh w2 = (res, w3)"
      by (cases "saveToCache lib s key fresh w2")
    let ?w4 = "case res of None \<Rightarrow> w3
     | Some err \<Rightarrow> emit (LogPrintf (logger s)
          (''warn: failed to persist cep '' @ key @ '' cache: '' @ Error err)) w3"
    from saveToCache_events [OF save] obtain ws
      where ws: "trace w3 = trace w2 @ ws"
        "ws = [] \<or> (\<exists>p t. ws = [DBExec (upsertQuery s) key p t])" by blast
    obtain ls where ls: "trace ?w4 = trace w3 @ ls" "ls = [] \<or> (\<exists>m. ls = [LogPrintf (logger s) m])"
      by (cases res) (simp_all add: trace_emit)
    from Get_fetched [OF key miss _ save] fetch Inr have "snd (Get lib s raw w) = ?w4" by simp
    with t2 ws ls show ?thesis by (auto simp: provider_calls_def new_events_def)
  qed
  then show "provider_calls (snd (Get lib s raw w)) = provider_calls w + 1"
    and "?do \<in> set (new_events w (snd (Get lib s raw w)))" by simp_all
qed

text \<open>
  Claim C1. A call of Get whose normalised key is found in the store. When the TTL is
  \<open>\<le> 0\<close> the record the payload deserialises to is returned and the clock is not read
  (the final world is the one right after the query). When the TTL is positive and
  \<^verbatim>\<open>s.now().Sub(updatedAt)\<close> is strictly greater than it, the entry is a miss whatever
  its payload: Get returns what the provider fetch returns and, the request being
  built, sends exactly one request to the provider. Otherwise the record the payload
  deserialises to is returned. The difference is that of \<^verbatim>\<open>Time.Sub\<close>: the difference
  of the instants, kept within the range of a Duration.
\<close>

theorem Get_cached_entry_ttl:
  assumes key: "normalizeCEP rawCEP = Inr key"
    and row: "QueryRowContext (db s) (selectQuery s) key = Inr (payload, updatedAt)"
    and w1: "w1 = emit (DBQuery (selectQuery s) key) w"
    and clk: "call_now s w1 = (t, w2)"
  shows "(sint (cacheTTL s) \<le> 0 \<and> json_Unmarshal lib payload = Inr cached \<longrightarrow>
            Get lib s rawCEP w = (Inr cached, w1))
       \<and> (0 < sint (cacheTTL s) \<and> sint (cacheTTL s) < sint (time_Sub t updatedAt) \<longrightarrow>
            loadFromCache lib s key w = (Inr None, w2)
            \<and> fst (Get lib s rawCEP w) = fst (fetchFromViaCEP lib s key w2)
            \<and> (http_request_error lib ''GET'' (viaCepURL key) = None \<longrightarrow>
                 provider_calls (snd (Get lib s rawCEP w)) = provider_calls w + 1
                 \<and> HTTPDo \<lparr>Method = ''GET'', URL = viaCepURL key\<rparr>
                     \<in> set (new_events w (snd (Get lib s rawCEP w)))))
       \<and> (0 < sint (cacheTTL s) \<and> \<not> sint (cacheTTL s) < sint (time_Sub t updatedAt)
            \<and> json_Unmarshal lib payload = Inr cached \<longrightarrow>
            Get lib s rawCEP w = (Inr cached, w2))
       \<and> sint (time_Sub t updatedAt) = max minDuration (min maxDuration (instant t - instant updatedAt))"
proof -
  have off: "Get lib s rawCEP w = (Inr cached, w1)"
    if "sint (cacheTTL s) \<le> 0 \<and> json_Unmarshal lib payload = Inr cached"
  proof -
    from that row have "loadFromCache lib s key w = (Inr (Some cached), w1)"
      by (simp add: loadFromCache_no_ttl w1)
    with key show ?thesis by (rule Get_hit)
  qed
  have stale: "loadFromCache lib s key w = (Inr None, w2)
            \<and> fst (Get lib s rawCEP w) = fst (fetchFromViaCEP lib s key w2)
            \<and> (http_request_error lib ''GET'' (viaCepURL key) = None \<longrightarrow>
                 provider_calls (snd (Get lib s rawCEP w)) = provider_calls w + 1
                 \<and> HTTPDo \<lparr>Method = ''GET'', URL = viaCepURL key\<rparr>
                     \<in> set (new_events w (snd (Get lib s rawCEP w))))"
    if a: "0 < sint (cacheTTL s) \<and> sint (cacheTTL s) < sint (time_Sub t updatedAt)"
  proof -
    from a row clk have miss: "loadFromCache lib s key w = (Inr None, w2)"
      by (simp add: loadFromCache_expired w1)
    from Get_miss_result [OF key miss] Get_miss_provider_call [OF key miss] miss
    show ?thesis by blast
  qed
  have fresh: "Get lib s rawCEP w = (Inr cached, w2)"
    if a: "0 < sint (cacheTTL s) \<and> \<not> sint (cacheTTL s) < sint (time_Sub t updatedAt)
            \<and> json_Unmarshal lib payload = Inr cached"
  proof -
    from a row clk have "loadFromCache lib s key w = (Inr (Some cached), w2)"
      using loadFromCache_fresh [of s key payload updatedAt w t w2 lib] by (simp add: w1)
    with key show ?thesis by (rule Get_hit)
  qed
  from off stale fresh sint_time_Sub show ?thesis by blast
qed

theorem Get_cached_entry_ttl_witness:
  "Get stubLib (testService (Inr (cachedPayload, \<lparr>instant = 0, loc = UTC\<rparr>)) None (Inl ErrNotFound) 0)
       ''12345-678'' world0
     = (Inr cachedResponse, emit (DBQuery ''SELECT payload, updated_at FROM ceps WHERE cep = $1'' ''12345678'') world0)
   \<and> fst (Get stubLib (testService (Inr (cachedPayload, \<lparr>instant = 900, loc = UTC\<rparr>)) None (Inl ErrNotFound) 50)
       ''12345-678'' world0)
     = Inl ErrNotFound
   \<and> provider_calls (snd (Get stubLib
        (testService (Inr (cachedPayload, \<lparr>instant = 900, loc = UTC\<rparr>)) None (Inl ErrNotFound) 50)
        ''12345-678'' world0)) = 1
   \<and> provider_calls (snd (Get stubLib
        (testService (Inr (''{'', \<lparr>instant = 900, loc = UTC\<rparr>)) None (Inl ErrNotFound) 50)
        ''12345-678'' world0)) = 1
   \<and> fst (Get stubLib (testService (Inr (cachedPayload, \<lparr>instant = 950, loc = UTC\<rparr>)) None (Inl ErrNotFound) 50)
       ''12345-678'' world0)
     = Inr cachedResponse"
proof -
  let ?q = "''SELECT payload, updated_at FROM ceps WHERE cep = $1''"
  let ?w1 = "emit (DBQuery ?q ''12345678'') world0"
  let ?t = "\<lparr>instant = 1000, loc = Local\<rparr>"
  let ?w2 = "?w1\<lparr>clock := \<lparr>wallclock = wallclock (clock world0), ticks = 1\<rparr>\<rparr>"
  let ?old = "\<lparr>instant = 900, loc = UTC\<rparr>"
  have key: "normalizeCEP ''12345-678'' = Inr ''12345678''"
    by (simp add: normalizeCEP_def isDigit_def)
  have rec: "json_Unmarshal stubLib cachedPayload = Inr cachedResponse"
    by (simp add: stub_defs)
  have w1: "\<And>row res resp ttl. ?w1 = emit (DBQuery (selectQuery (testService row res resp ttl)) ''12345678'') world0"
    by (simp add: stub_defs op_defs)
  have clk: "\<And>row res resp ttl. call_now (testService row res resp ttl) ?w1 = (?t, ?w2)"
    by (simp add: stub_defs op_defs)
  have row: "\<And>row res resp ttl. QueryRowContext (db (testService row res resp ttl))
       (selectQuery (testService row res resp ttl)) ''12345678'' = row"
    by (simp add: stub_defs op_defs)
  have ttl: "\<And>row res resp ttl. cacheTTL (testService row res resp ttl) = ttl"
    by (simp add: stub_defs op_defs)
  have req: "\<And>url. http_request_error stubLib ''GET'' url = None"
    by (simp add: stubLib_def)
  have zero: "provider_calls world0 = 0"
    by (simp add: provider_calls_def world0_def)
  have age: "sint (50 :: Duration) < sint (time_Sub ?t ?old)"
    by (simp add: time_Sub_def minDuration_def maxDuration_def)
  have a: "Get stubLib (testService (Inr (cachedPayload, \<lparr>instant = 0, loc = UTC\<rparr>)) None (Inl ErrNotFound) 0)
       ''12345-678'' world0 = (Inr cachedResponse, ?w1)"
    using Get_cached_entry_ttl [OF key
        row [of "Inr (cachedPayload, \<lparr>instant = 0, loc = UTC\<rparr>)" None "Inl ErrNotFound" 0] w1 clk,
        where lib = stubLib and cached = cachedResponse] rec
    by (simp add: ttl)
  note stale = Get_cached_entry_ttl [OF key
        row [of "Inr (cachedPayload, ?old)" None "Inl ErrNotFound" 50] w1 clk, where lib = stubLib]
  note corrupt = Get_cached_entry_ttl [OF key
        row [of "Inr (''{'', ?old)" None "Inl ErrNotFound" 50] w1 clk, where lib = stubLib]
  have b1: "fst (Get stubLib (testService (Inr (cachedPayload, ?old)) None (Inl ErrNotFound) 50)
       ''12345-678'' world0)
     = fst (fetchFromViaCEP stubLib (testService (Inr (cachedPayload, ?old)) None (Inl ErrNotFound) 50) ''12345678'' ?w2)"
    and b2: "provider_calls (snd (Get stubLib (testService (Inr (cachedPayload, ?old)) None (Inl ErrNotFound) 50)
       ''12345-678'' world0)) = 1"
    using stale age by (simp_all add: ttl req zero)
  from b1 have b: "fst (Get stubLib (testService (Inr (cachedPayload, ?old)) None (Inl ErrNotFound) 50)
       ''12345-678'' world0) = Inl ErrNotFound"
    by (simp add: stub_defs fetchFromViaCEP_def http_NewRequestWithContext_def NewService_def)
  have c: "provider_calls (snd (Get stubLib (testService (Inr (''{'', ?old)) None (Inl ErrNotFound) 50)
       ''12345-678'' world0)) = 1"
    using corrupt age by (simp add: ttl req zero)
  have d: "fst (Get stubLib (testService (Inr (cachedPayload, \<lparr>instant = 950, loc = UTC\<rparr>)) None (Inl ErrNotFound) 50)
       ''12345-678'' world0) = Inr cachedResponse"
    using Get_cached_entry_ttl [OF key
        row [of "Inr (cachedPayload, \<lparr>instant = 950, loc = UTC\<rparr>)" None "Inl ErrNotFound" 50] w1 clk,
        where lib = stubLib and cached = cachedResponse] rec
    by (simp add: ttl time_Sub_def minDuration_def maxDuration_def)
  from a b b2 c d show ?thesis by simp
qed

subsection \<open>Write-back\<close>

text \<open>
  Claim C3. When Get reaches a successful provider fetch it returns the fetched record
  and no error, whatever the write-back does; when the write-back fails, the failure
  is only logged: the final world is the one the write-back left, with one more line
  in the log.
\<close>

theorem Get_write_failure_swallowed:
  assumes key: "normalizeCEP rawCEP = Inr key"
    and miss: "loadFromCache lib s key w = (Inr None, w1)"
    and fetch: "fetchFromViaCEP lib s key w1 = (Inr fresh, w2)"
  shows "fst (Get lib s rawCEP w) = Inr fresh
     \<and> (saveToCache lib s key fresh w2 = (Some err, w3) \<longrightarrow>
          Get lib s rawCEP w =
            (Inr fresh,
             emit (LogPrintf (logger s)
                     (''warn: failed to persist cep '' @ key @ '' cache: '' @ Error err)) w3))"
proof -
  have "fst (Get lib s rawCEP w) = Inr fresh"
    using Get_miss_result [OF key miss] fetch by simp
  moreover have "Get lib s rawCEP w =
            (Inr fresh,
             emit (LogPrintf (logger s)
                     (''warn: failed to persist cep '' @ key @ '' cache: '' @ Error err)) w3)"
    if "saveToCache lib s key fresh w2 = (Some err, w3)"
    using Get_fetched [OF key miss fetch that] by simp
  ultimately show ?thesis by blast
qed

theorem Get_write_failure_swallowed_witness:
  \<open>fst (Get stubLib (testService (Inl ErrNoRows) (Some (ErrorString ''connection refused''))
             (Inr \<lparr>StatusCode = 200, Body = ''{"uf":"ST"}''\<rparr>) 50) ''12345-678'' world0)
     = Inr (zeroResponse\<lparr>Cep := ''12345-678'', Uf := ''ST''\<rparr>)
   \<and> last (trace (snd (Get stubLib (testService (Inl ErrNoRows) (Some (ErrorString ''connection refused''))
             (Inr \<lparr>StatusCode = 200, Body = ''{"uf":"ST"}''\<rparr>) 50) ''12345-678'' world0)))
     = LogPrintf \<lparr>out = StdWriter, prefix = '''', flags = 3\<rparr>
         ''warn: failed to persist cep 12345678 cache: connection refused''\<close>
proof -
  let ?s = \<open>testService (Inl ErrNoRows) (Some (ErrorString ''connection refused''))
             (Inr \<lparr>StatusCode = 200, Body = ''{"uf":"ST"}''\<rparr>) 50\<close>
  let ?fresh = "zeroResponse\<lparr>Cep := ''12345-678'', Uf := ''ST''\<rparr>"
  let ?w1 = "snd (loadFromCache stubLib ?s ''12345678'' world0)"
  let ?w2 = "snd (fetchFromViaCEP stubLib ?s ''12345678'' ?w1)"
  let ?w3 = "snd (saveToCache stubLib ?s ''12345678'' ?fresh ?w2)"
  have key: "normalizeCEP ''12345-678'' = Inr ''12345678''"
    by (simp add: normalizeCEP_def isDigit_def)
  have "fst (loadFromCache stubLib ?s ''12345678'' world0) = Inr None"
    by (simp add: stub_defs op_defs)
  then have miss: "loadFromCache stubLib ?s ''12345678'' world0 = (Inr None, ?w1)"
    by (simp add: prod_eq_iff)
  have "fst (fetchFromViaCEP stubLib ?s ''12345678'' ?w1) = Inr ?fresh"
    by (simp add: stub_defs op_defs)
  then have fetch: "fetchFromViaCEP stubLib ?s ''12345678'' ?w1 = (Inr ?fresh, ?w2)"
    by (simp add: prod_eq_iff)
  have "fst (saveToCache stubLib ?s ''12345678'' ?fresh ?w2) = Some (ErrorString ''connection refused'')"
    by (simp add: stub_defs op_defs)
  then have save: "saveToCache stubLib ?s ''12345678'' ?fresh ?w2 = (Some (ErrorString ''connection refused''), ?w3)"
    by (simp add: prod_eq_iff)
  from Get_write_failure_swallowed [OF key miss fetch, of "ErrorString ''connection refused''" ?w3] save
  have "Get stubLib ?s ''12345-678'' world0 =
            (Inr ?fresh,
             emit (LogPrintf (logger ?s)
                     (''warn: failed to persist cep '' @ ''12345678'' @ '' cache: '' @ Error (ErrorString ''connection refused''))) ?w3)"
    by blast
  then show ?thesis
    by (simp add: trace_emit testService_def NewService_def LstdFlags_def)
qed

text \<open>
  Claim C6. On a cache hit within the TTL (the row is found, it is not expired, its
  payload deserialises) Get returns the cached record, sends nothing to the provider
  and writes nothing to the store. A run of Get that writes to the store is a run
  whose cache read was a miss and whose provider fetch succeeded.
\<close>

theorem Get_cache_hit_frame:
  "(normalizeCEP rawCEP = Inr key
      \<and> QueryRowContext (db s) (selectQuery s) key = Inr (payload, updatedAt)
      \<and> \<not> (0 < sint (cacheTTL s) \<and> sint (cacheTTL s)
               < sint (time_Sub (fst (call_now s (emit (DBQuery (selectQuery s) key) w))) updatedAt))
      \<and> json_Unmarshal lib payload = Inr cached \<longrightarrow>
        fst (Get lib s rawCEP w) = Inr cached
        \<and> provider_calls (snd (Get lib s rawCEP w)) = provider_calls w
        \<and> store_writes (snd (Get lib s rawCEP w)) = store_writes w)
   \<and> (store_writes (snd (Get lib s rawCEP w)) \<noteq> store_writes w \<longrightarrow>
        (\<exists>k w1 fresh w2. normalizeCEP rawCEP = Inr k \<and> loadFromCache lib s k w = (Inr None, w1)
           \<and> fetchFromViaCEP lib s k w1 = (Inr fresh, w2)))"
proof -
  have hit: "fst (Get lib s rawCEP w) = Inr cached
        \<and> provider_calls (snd (Get lib s rawCEP w)) = provider_calls w
        \<and> store_writes (snd (Get lib s rawCEP w)) = store_writes w"
    if key: "normalizeCEP rawCEP = Inr key"
      and row: "QueryRowContext (db s) (selectQuery s) key = Inr (payload, updatedAt)"
      and fresh: "\<not> (0 < sint (cacheTTL s) \<and> sint (cacheTTL s)
               < sint (time_Sub (fst (call_now s (emit (DBQuery (selectQuery s) key) w))) updatedAt))"
      and rec: "json_Unmarshal lib payload = Inr cached"
  proof -
    from loadFromCache_hit [OF row fresh rec] obtain w1
      where load: "loadFromCache lib s key w = (Inr (Some cached), w1)" ..
    from Get_hit [OF key load] loadFromCache_counts(1,2) [OF load] show ?thesis by simp
  qed
  have wrote: "\<exists>k w1 fresh w2. normalizeCEP rawCEP = Inr k \<and> loadFromCache lib s k w = (Inr None, w1)
           \<and> fetchFromViaCEP lib s k w1 = (Inr fresh, w2)"
    if "store_writes (snd (Get lib s rawCEP w)) \<noteq> store_writes w"
    using that Get_store_writes_unchanged [of rawCEP lib s w] by blast
  from hit wrote show ?thesis by blast
qed

theorem Get_cache_hit_frame_witness:
  "fst (Get stubLib (testService (Inr (cachedPayload, \<lparr>instant = 990, loc = UTC\<rparr>)) None (Inl ErrNotFound) 50)
       ''12345-678'' world0) = Inr cachedResponse
   \<and> provider_calls (snd (Get stubLib
        (testService (Inr (cachedPayload, \<lparr>instant = 990, loc = UTC\<rparr>)) None (Inl ErrNotFound) 50)
        ''12345-678'' world0)) = 0
   \<and> store_writes (snd (Get stubLib
        (testService (Inr (cachedPayload, \<lparr>instant = 990, loc = UTC\<rparr>)) None (Inl ErrNotFound) 50)
        ''12345-678'' world0)) = 0"
proof -
  let ?s = "testService (Inr (cachedPayload, \<lparr>instant = 990, loc = UTC\<rparr>)) None (Inl ErrNotFound) 50"
  have key: "normalizeCEP ''12345-678'' = Inr ''12345678''"
    by (simp add: normalizeCEP_def isDigit_def)
  have row: "QueryRowContext (db ?s) (selectQuery ?s) ''12345678''
      = Inr (cachedPayload, \<lparr>instant = 990, loc = UTC\<rparr>)"
    by (simp add: stub_defs op_defs)
  have fresh: "\<not> (0 < sint (cacheTTL ?s) \<and> sint (cacheTTL ?s)
       < sint (time_Sub (fst (call_now ?s (emit (DBQuery (selectQuery ?s) ''12345678'') world0)))
                 \<lparr>instant = 990, loc = UTC\<rparr>))"
    by (simp add: stub_defs op_defs)
  have rec: "json_Unmarshal stubLib cachedPayload = Inr cachedResponse"
    by (simp add: stub_defs)
  have zero: "provider_calls world0 = 0" "store_writes world0 = 0"
    by (simp_all add: provider_calls_def store_writes_def world0_def)
  from Get_cache_hit_frame [of "''12345-678''" "''12345678''" ?s cachedPayload
      "\<lparr>instant = 990, loc = UTC\<rparr>" world0 stubLib cachedResponse] key row fresh rec
  have "fst (Get stubLib ?s ''12345-678'' world0) = Inr cachedResponse
        \<and> provider_calls (snd (Get stubLib ?s ''12345-678'' world0)) = provider_calls world0
        \<and> store_writes (snd (Get stubLib ?s ''12345-678'' world0)) = store_writes world0"
    by blast
  with zero show ?thesis by simp
qed

text \<open>
  Claim C10. A record that the provider fetch returns has its \<^verbatim>\<open>Erro\<close> flag false, so
  has every record that Get returns after a cache miss, and every payload that a run
  of Get sends to the store is the serialisation of the record Get returns, whose flag
  is false.
\<close>

theorem Get_fetched_record_not_Erro:
  "(fetchFromViaCEP lib s key w1 = (Inr fresh, w2) \<longrightarrow> \<not> Erro fresh)
   \<and> (normalizeCEP rawCEP = Inr key \<and> loadFromCache lib s key w = (Inr None, w1)
        \<and> fst (Get lib s rawCEP w) = Inr r \<longrightarrow> \<not> Erro r)
   \<and> (DBExec q k p t \<in> set (new_events w (snd (Get lib s rawCEP w))) \<longrightarrow>
        (\<exists>r. fst (Get lib s rawCEP w) = Inr r \<and> json_Marshal lib r = Inr p \<and> \<not> Erro r))"
proof -
  have a: "\<not> Erro fresh" if "fetchFromViaCEP lib s key w1 = (Inr fresh, w2)"
    using that by (rule fetchFromViaCEP_not_Erro)
  have b: "\<not> Erro r"
    if h: "normalizeCEP rawCEP = Inr key \<and> loadFromCache lib s key w = (Inr None, w1)
        \<and> fst (Get lib s rawCEP w) = Inr r"
  proof -
    from h have "fst (fetchFromViaCEP lib s key w1) = Inr r"
      using Get_miss_result [of rawCEP key lib s w w1] by simp
    then have "fetchFromViaCEP lib s key w1 = (Inr r, snd (fetchFromViaCEP lib s key w1))"
      by (simp add: prod_eq_iff)
    then show ?thesis by (rule fetchFromViaCEP_not_Erro)
  qed
  have c: "\<exists>r. fst (Get lib s rawCEP w) = Inr r \<and> json_Marshal lib r = Inr p \<and> \<not> Erro r"
    if "DBExec q k p t \<in> set (new_events w (snd (Get lib s rawCEP w)))"
    using Get_events [OF that] fetchFromViaCEP_not_Erro by fastforce
  from a b c show ?thesis by blast
qed

theorem Get_fetched_record_not_Erro_witness:
  \<open>fst (Get stubLib (testService (Inl ErrNoRows) None (Inr \<lparr>StatusCode = 200, Body = ''{"erro": true}''\<rparr>) 50)
          ''00000000'' world0) = Inl ErrNotFound
   \<and> fst (Get stubLib (testService (Inl ErrNoRows) None (Inr \<lparr>StatusCode = 200, Body = ''{"uf":"ST"}''\<rparr>) 50)
          ''12345-678'' world0) = Inr (zeroResponse\<lparr>Cep := ''12345-678'', Uf := ''ST''\<rparr>)
   \<and> \<not> Erro (zeroResponse\<lparr>Cep := ''12345-678'', Uf := ''ST''\<rparr>)
   \<and> new_events world0 (snd (Get stubLib
          (testService (Inl ErrNoRows) None (Inr \<lparr>StatusCode = 200, Body = ''{"uf":"ST"}''\<rparr>) 50)
          ''12345-678'' world0)) ! 3
       = DBExec (upsertQuery (testService (Inl ErrNoRows) None (Inr \<lparr>StatusCode = 200, Body = ''{"uf":"ST"}''\<rparr>) 50))
           ''12345678'' ''{"cep":"12345-678","uf":"ST"}'' \<lparr>instant = 1000, loc = UTC\<rparr>
   \<and> json_Marshal stubLib (zeroResponse\<lparr>Cep := ''12345-678'', Uf := ''ST''\<rparr>) = Inr ''{"cep":"12345-678","uf":"ST"}''\<close>
proof -
  let ?s = \<open>testService (Inl ErrNoRows) None (Inr \<lparr>StatusCode = 200, Body = ''{"uf":"ST"}''\<rparr>) 50\<close>
  let ?r = "zeroResponse\<lparr>Cep := ''12345-678'', Uf := ''ST''\<rparr>"
  let ?w1 = "snd (loadFromCache stubLib ?s ''12345678'' world0)"
  have soft: \<open>fst (Get stubLib (testService (Inl ErrNoRows) None (Inr \<lparr>StatusCode = 200, Body = ''{"erro": true}''\<rparr>) 50)
          ''00000000'' world0) = Inl ErrNotFound\<close>
    by (simp add: stub_defs op_defs)
  have key: "normalizeCEP ''12345-678'' = Inr ''12345678''"
    by (simp add: normalizeCEP_def isDigit_def)
  have "fst (loadFromCache stubLib ?s ''12345678'' world0) = Inr None"
    by (simp add: stub_defs op_defs)
  then have miss: "loadFromCache stubLib ?s ''12345678'' world0 = (Inr None, ?w1)"
    by (simp add: prod_eq_iff)
  have res: "fst (Get stubLib ?s ''12345-678'' world0) = Inr ?r"
    by (simp add: stub_defs op_defs)
  have ev: \<open>new_events world0 (snd (Get stubLib ?s ''12345-678'' world0)) ! 3
       = DBExec (upsertQuery ?s) ''12345678'' ''{"cep":"12345-678","uf":"ST"}'' \<lparr>instant = 1000, loc = UTC\<rparr>\<close>
    by (simp add: stub_defs op_defs new_events_def)
  have m: \<open>json_Marshal stubLib ?r = Inr ''{"cep":"12345-678","uf":"ST"}''\<close>
    by (simp add: stub_defs)
  from Get_fetched_record_not_Erro [of stubLib ?s "''12345678''" ?w1 _ _ "''12345-678''" world0 ?r]
    key miss res
  have "\<not> Erro ?r" by blast
  with soft res ev m show ?thesis by blast
qed

subsection \<open>Provider fetch\<close>

lemma fmt_d_status: "fmt_d 500 = ''500''" "fmt_d 404 = ''404''" "fmt_d 200 = ''200''"
  by (simp_all add: fmt_d_def fmt_nat.simps)

text \<open>
  Claim C5. The provider fetch: an error of building or sending the request is
  returned as it is; status 404 gives \<^verbatim>\<open>ErrNotFound\<close>; any other status from 400 up
  gives an error whose message ends with the status code in decimal; a response below
  400 whose body decodes to a record with \<^verbatim>\<open>erro\<close> set gives \<^verbatim>\<open>ErrNotFound\<close> too.
\<close>

theorem fetchFromViaCEP_errors:
  assumes req: "req = \<lparr>Method = ''GET'', URL = viaCepURL cep\<rparr>"
  shows "(http_request_error lib ''GET'' (viaCepURL cep) = Some err \<longrightarrow>
            fetchFromViaCEP lib s cep w = (Inl err, w))
       \<and> (http_request_error lib ''GET'' (viaCepURL cep) = None \<longrightarrow>
            (client s req = Inl err \<longrightarrow> fst (fetchFromViaCEP lib s cep w) = Inl err)
          \<and> (client s req = Inr resp \<and> StatusCode resp = 404 \<longrightarrow>
                fst (fetchFromViaCEP lib s cep w) = Inl ErrNotFound)
          \<and> (client s req = Inr resp \<and> StatusCode resp \<noteq> 404 \<and> 400 \<le> StatusCode resp \<longrightarrow>
                fst (fetchFromViaCEP lib s cep w)
                  = Inl (ErrorString (''viacep returned status '' @ fmt_d (StatusCode resp))))
          \<and> (client s req = Inr resp \<and> StatusCode resp < 400
                \<and> json_Decode lib (Body resp) = Inr body \<and> Erro body \<longrightarrow>
                fst (fetchFromViaCEP lib s cep w) = Inl ErrNotFound))"
  by (simp add: fetchFromViaCEP_def http_NewRequestWithContext_def Let_def req)

theorem fetchFromViaCEP_errors_witness:
  \<open>fst (fetchFromViaCEP stubLib (testService (Inl ErrNoRows) None (Inl (ErrorString ''dial tcp: timeout'')) 50)
          ''12345678'' world0) = Inl (ErrorString ''dial tcp: timeout'')
   \<and> fst (fetchFromViaCEP stubLib (testService (Inl ErrNoRows) None (Inr \<lparr>StatusCode = 404, Body = ''''\<rparr>) 50)
          ''12345678'' world0) = Inl ErrNotFound
   \<and> fst (fetchFromViaCEP stubLib (testService (Inl ErrNoRows) None (Inr \<lparr>StatusCode = 500, Body = ''''\<rparr>) 50)
          ''12345678'' world0) = Inl (ErrorString ''viacep returned status 500'')
   \<and> fst (fetchFromViaCEP stubLib
          (testService (Inl ErrNoRows) None (Inr \<lparr>StatusCode = 200, Body = ''{"erro": true}''\<rparr>) 50)
          ''00000000'' world0) = Inl ErrNotFound\<close>
proof -
  have nil: "\<And>url. http_request_error stubLib ''GET'' url = None"
    by (simp add: stubLib_def)
  have cl: "\<And>row res resp ttl r. client (testService row res resp ttl) r = resp"
    by (simp add: testService_def NewService_def stubHTTPClient_def)
  have dec: \<open>json_Decode stubLib ''{"erro": true}'' = Inr (zeroResponse\<lparr>Erro := True\<rparr>)\<close>
    by (simp add: stub_defs)
  have a: "fst (fetchFromViaCEP stubLib (testService (Inl ErrNoRows) None (Inl (ErrorString ''dial tcp: timeout'')) 50)
          ''12345678'' world0) = Inl (ErrorString ''dial tcp: timeout'')"
    using fetchFromViaCEP_errors [OF refl, where lib = stubLib and cep = "''12345678''" and w = world0
        and s = "testService (Inl ErrNoRows) None (Inl (ErrorString ''dial tcp: timeout'')) 50"
        and err = "ErrorString ''dial tcp: timeout''"]
    by (simp add: nil cl)
  have b: "fst (fetchFromViaCEP stubLib (testService (Inl ErrNoRows) None (Inr \<lparr>StatusCode = 404, Body = ''''\<rparr>) 50)
          ''12345678'' world0) = Inl ErrNotFound"
    using fetchFromViaCEP_errors [OF refl, where lib = stubLib and cep = "''12345678''" and w = world0
        and s = "testService (Inl ErrNoRows) None (Inr \<lparr>StatusCode = 404, Body = ''''\<rparr>) 50"
        and resp = "\<lparr>StatusCode = 404, Body = ''''\<rparr>"]
    by (simp add: nil cl)
  have c: "fst (fetchFromViaCEP stubLib (testService (Inl ErrNoRows) None (Inr \<lparr>StatusCode = 500, Body = ''''\<rparr>) 50)
          ''12345678'' world0) = Inl (ErrorString ''viacep returned status 500'')"
    using fetchFromViaCEP_errors [OF refl, where lib = stubLib and cep = "''12345678''" and w = world0
        and s = "testService (Inl ErrNoRows) None (Inr \<lparr>StatusCode = 500, Body = ''''\<rparr>) 50"
        and resp = "\<lparr>StatusCode = 500, Body = ''''\<rparr>"]
    by (simp add: nil cl fmt_d_status)
  have d: \<open>fst (fetchFromViaCEP stubLib
          (testService (Inl ErrNoRows) None (Inr \<lparr>StatusCode = 200, Body = ''{"erro": true}''\<rparr>) 50)
          ''00000000'' world0) = Inl ErrNotFound\<close>
    using fetchFromViaCEP_errors [OF refl, where lib = stubLib and cep = "''00000000''" and w = world0
        and s = \<open>testService (Inl ErrNoRows) None (Inr \<lparr>StatusCode = 200, Body = ''{"erro": true}''\<rparr>) 50\<close>
        and resp = \<open>\<lparr>StatusCode = 200, Body = ''{"erro": true}''\<rparr>\<close>
        and body = "zeroResponse\<lparr>Erro := True\<rparr>"]
    by (simp add: nil cl dec zeroResponse_def)
  from a b c d show ?thesis by simp
qed

text \<open>
  Claim C7. When the provider fetch succeeds (status below 400, a body that decodes to
  a record without \<^verbatim>\<open>erro\<close>) after a cache miss, Get returns the decoded record, with
  an empty \<^verbatim>\<open>Cep\<close> replaced by the first 5 digits of the key, a hyphen and its last 3
  digits; a \<^verbatim>\<open>Cep\<close> that is not empty is returned as the provider gave it.
\<close>

theorem Get_fills_empty_Cep:
  assumes key: "normalizeCEP rawCEP = Inr key"
    and miss: "loadFromCache lib s key w = (Inr None, w1)"
    and req: "http_request_error lib ''GET'' (viaCepURL key) = None"
    and resp: "client s \<lparr>Method = ''GET'', URL = viaCepURL key\<rparr> = Inr resp"
    and status: "StatusCode resp < 400"
    and body: "json_Decode lib (Body resp) = Inr body"
    and found: "\<not> Erro body"
  shows "fst (Get lib s rawCEP w)
           = Inr (if Cep body = '''' then body\<lparr>Cep := take 5 key @ ''-'' @ drop 5 key\<rparr> else body)
       \<and> formatCEP key = take 5 key @ ''-'' @ drop 5 key
       \<and> length (take 5 key) = 5 \<and> length (drop 5 key) = 3 \<and> (\<forall>c\<in>set key. isDigit c)"
proof -
  from key have len: "length key = 8" and digits: "\<forall>c\<in>set key. isDigit c"
    by (auto simp: normalizeCEP_Inr)
  from len have fmt: "formatCEP key = take 5 key @ ''-'' @ drop 5 key"
    by (simp add: formatCEP_def)
  have "fst (fetchFromViaCEP lib s key w1)
          = Inr (if Cep body = '''' then body\<lparr>Cep := formatCEP key\<rparr> else body)"
    using req resp status body found
    by (simp add: fetchFromViaCEP_def http_NewRequestWithContext_def Let_def)
  with Get_miss_result [OF key miss] fmt len digits show ?thesis by simp
qed

theorem Get_fills_empty_Cep_witness:
  \<open>fst (Get stubLib (testService (Inl ErrNoRows) None (Inr \<lparr>StatusCode = 200, Body = ''{"uf":"ST"}''\<rparr>) 50)
          ''76543210'' world0) = Inr (zeroResponse\<lparr>Cep := ''76543-210'', Uf := ''ST''\<rparr>)
   \<and> fst (Get stubLib
          (testService (Inl ErrNoRows) None (Inr \<lparr>StatusCode = 200, Body = ''{"cep":"12345-678","uf":"ST"}''\<rparr>) 50)
          ''76543210'' world0) = Inr (zeroResponse\<lparr>Cep := ''12345-678'', Uf := ''ST''\<rparr>)\<close>
proof -
  let ?s = \<open>testService (Inl ErrNoRows) None (Inr \<lparr>StatusCode = 200, Body = ''{"uf":"ST"}''\<rparr>) 50\<close>
  let ?s' = \<open>testService (Inl ErrNoRows) None (Inr \<lparr>StatusCode = 200, Body = ''{"cep":"12345-678","uf":"ST"}''\<rparr>) 50\<close>
  have key: "normalizeCEP ''76543210'' = Inr ''76543210''"
    by (simp add: normalizeCEP_def isDigit_def)
  have "\<And>resp. fst (loadFromCache stubLib (testService (Inl ErrNoRows) None resp 50) ''76543210'' world0) = Inr None"
    by (simp add: stub_defs op_defs)
  then have miss: "\<And>resp. loadFromCache stubLib (testService (Inl ErrNoRows) None resp 50) ''76543210'' world0
      = (Inr None, snd (loadFromCache stubLib (testService (Inl ErrNoRows) None resp 50) ''76543210'' world0))"
    by (simp add: prod_eq_iff)
  have req: "\<And>url. http_request_error stubLib ''GET'' url = None"
    by (simp add: stubLib_def)
  have cl: "\<And>row res resp ttl r. client (testService row res resp ttl) r = resp"
    by (simp add: testService_def NewService_def stubHTTPClient_def)
  have st: "StatusCode \<lparr>StatusCode = 200, Body = b\<rparr> < 400" for b :: string
    by simp
  have d1: \<open>json_Decode stubLib (Body \<lparr>StatusCode = 200, Body = ''{"uf":"ST"}''\<rparr>) = Inr (zeroResponse\<lparr>Uf := ''ST''\<rparr>)\<close>
    by (simp add: stub_defs)
  have d2: \<open>json_Decode stubLib (Body \<lparr>StatusCode = 200, Body = ''{"cep":"12345-678","uf":"ST"}''\<rparr>)
      = Inr (zeroResponse\<lparr>Cep := ''12345-678'', Uf := ''ST''\<rparr>)\<close>
    by (simp add: stub_defs)
  have e1: "\<not> Erro (zeroResponse\<lparr>Uf := ''ST''\<rparr>)" and e2: "\<not> Erro (zeroResponse\<lparr>Cep := ''12345-678'', Uf := ''ST''\<rparr>)"
    by (simp_all add: zeroResponse_def)
  from Get_fills_empty_Cep [OF key miss req cl st d1 e1]
  have a: "fst (Get stubLib ?s ''76543210'' world0) = Inr (zeroResponse\<lparr>Cep := ''76543-210'', Uf := ''ST''\<rparr>)"
    by (simp add: zeroResponse_def)
  from Get_fills_empty_Cep [OF key miss req cl st d2 e2]
  have b: "fst (Get stubLib ?s' ''76543210'' world0) = Inr (zeroResponse\<lparr>Cep := ''12345-678'', Uf := ''ST''\<rparr>)"
    by (simp add: zeroResponse_def)
  from a b show ?thesis by simp
qed

subsection \<open>Validation of the key\<close>

lemma Get_valid_trace_grows:
  assumes key: "normalizeCEP raw = Inr key"
  shows "length (trace w) < length (trace (snd (Get lib s raw w)))"
proof (cases rule: Get_cases [where raw = raw and lib = lib and s = s and w = w])
  case invalid
  with key show ?thesis by (simp add: normalizeCEP_Inr)
next
  case (read_error key err w1)
  with loadFromCache_trace [OF read_error(2)] show ?thesis by simp
next
  case (hit key cached w1)
  with loadFromCache_trace [OF hit(2)] show ?thesis by simp
next
  case (fetch_error key w1 err w2)
  with loadFromCache_trace [OF fetch_error(2)] fetchFromViaCEP_events [OF fetch_error(3)]
  show ?thesis by auto
next
  case (fetched key w1 fresh w2 res w3)
  from loadFromCache_trace [OF fetched(2)] fetchFromViaCEP_events [OF fetched(3)]
    saveToCache_events [OF fetched(4)]
  have "length (trace w) < length (trace w3)" by auto
  with fetched(5) show ?thesis by (cases res) (simp_all add: trace_emit)
qed

lemma loadFromCache_error_source:
  "loadFromCache lib s key w = (Inl e, w') \<Longrightarrow> collaborator_returns lib s key e"
  by (auto simp: loadFromCache_def collaborator_returns_def Let_def
      split: sum.splits prod.splits if_splits)

lemma fetchFromViaCEP_error_source:
  "fetchFromViaCEP lib s key w = (Inl e, w') \<Longrightarrow>
     e = ErrNotFound \<or> (\<exists>m. e = ErrorString m) \<or> collaborator_returns lib s key e"
  by (auto simp: fetchFromViaCEP_def http_NewRequestWithContext_def collaborator_returns_def Let_def
      split: sum.splits option.splits if_splits)

lemma Get_InvalidKey_source:
  assumes len: "length (filter isDigit raw) = 8"
    and res: "fst (Get lib s raw w) = Inl err"
    and inv: "errors_Is err ErrInvalidCEP"
  shows "\<exists>e. collaborator_returns lib s (filter isDigit raw) e \<and> errors_Is e ErrInvalidCEP"
proof (cases rule: Get_cases [where raw = raw and lib = lib and s = s and w = w])
  case invalid
  with len show ?thesis by simp
next
  case (read_error key e w1)
  from read_error(3) res have "err = WrapError ''query cache: '' e" by simp
  with inv have "errors_Is e ErrInvalidCEP" by simp
  moreover from read_error have "collaborator_returns lib s (filter isDigit raw) e"
    by (auto simp: normalizeCEP_Inr dest: loadFromCache_error_source)
  ultimately show ?thesis by blast
next
  case (hit key cached w1)
  with res show ?thesis by simp
next
  case (fetch_error key w1 e w2)
  from fetch_error(4) res have "err = e" by simp
  with inv have e: "errors_Is e ErrInvalidCEP" by simp
  from fetch_error(1) have k: "key = filter isDigit raw" by (simp add: normalizeCEP_Inr)
  from fetchFromViaCEP_error_source [OF fetch_error(3)] e
  have "collaborator_returns lib s key e" by auto
  with e k show ?thesis by blast
next
  case (fetched key w1 fresh w2 res w3)
  with res show ?thesis by simp
qed

text \<open>
  Claim C4, as the code has it. When the input stripped of its non-digits does not
  have exactly 8 digits, Get fails with \<^verbatim>\<open>ErrInvalidCEP\<close> and performs no I/O (the world
  is unchanged); Get fails that way, with the world unchanged, only then. Provided no
  collaborator (the store query, the deserialisation of its payload, the construction
  of the request, the client's \<^verbatim>\<open>Do\<close>, the decoding of the body) returns an error that
  is or wraps \<^verbatim>\<open>ErrInvalidCEP\<close>, Get fails with \<^verbatim>\<open>ErrInvalidCEP\<close> (as the value returned,
  and in the sense of \<^verbatim>\<open>errors.Is\<close>) exactly when the stripped input does not have
  exactly 8 digits; without the proviso, such a failure on 8 digits is an error that
  one of these collaborators returned. Every key that a run of Get sends to the store
  (query or upsert) or to the provider (in the URL) is 8 digits.
\<close>

theorem Get_InvalidKey:
  "(length (filter isDigit rawCEP) \<noteq> 8 \<longrightarrow>
      Get lib s rawCEP w = (Inl ErrInvalidCEP, w) \<and> new_events w (snd (Get lib s rawCEP w)) = [])
   \<and> (Get lib s rawCEP w = (Inl ErrInvalidCEP, w) \<longleftrightarrow> length (filter isDigit rawCEP) \<noteq> 8)
   \<and> ((\<forall>e. collaborator_returns lib s (filter isDigit rawCEP) e \<longrightarrow> \<not> errors_Is e ErrInvalidCEP) \<longrightarrow>
        (fst (Get lib s rawCEP w) = Inl ErrInvalidCEP \<longleftrightarrow> length (filter isDigit rawCEP) \<noteq> 8)
        \<and> ((\<exists>err. fst (Get lib s rawCEP w) = Inl err \<and> errors_Is err ErrInvalidCEP)
              \<longleftrightarrow> length (filter isDigit rawCEP) \<noteq> 8))
   \<and> (length (filter isDigit rawCEP) = 8 \<and> fst (Get lib s rawCEP w) = Inl err
        \<and> errors_Is err ErrInvalidCEP \<longrightarrow>
        (\<exists>e. collaborator_returns lib s (filter isDigit rawCEP) e \<and> errors_Is e ErrInvalidCEP))
   \<and> (e \<in> set (new_events w (snd (Get lib s rawCEP w))) \<longrightarrow>
        (\<forall>q k. e = DBQuery q k \<longrightarrow> length k = 8 \<and> (\<forall>c\<in>set k. isDigit c))
        \<and> (\<forall>q k p t. e = DBExec q k p t \<longrightarrow> length k = 8 \<and> (\<forall>c\<in>set k. isDigit c))
        \<and> (\<forall>r. e = HTTPDo r \<longrightarrow>
              (\<exists>k. URL r = viaCepURL k \<and> length k = 8 \<and> (\<forall>c\<in>set k. isDigit c))))"
proof -
  have rej: "Get lib s rawCEP w = (Inl ErrInvalidCEP, w) \<and> new_events w (snd (Get lib s rawCEP w)) = []"
    if "length (filter isDigit rawCEP) \<noteq> 8"
    using Get_invalid [OF that, of lib s w] by (simp add: new_events_def)
  have a: "Get lib s rawCEP w = (Inl ErrInvalidCEP, w) \<longleftrightarrow> length (filter isDigit rawCEP) \<noteq> 8"
  proof
    assume same: "Get lib s rawCEP w = (Inl ErrInvalidCEP, w)"
    show "length (filter isDigit rawCEP) \<noteq> 8"
    proof
      assume "length (filter isDigit rawCEP) = 8"
      then have "normalizeCEP rawCEP = Inr (filter isDigit rawCEP)" by (simp add: normalizeCEP_Inr)
      from Get_valid_trace_grows [OF this, of w lib s] same show False by simp
    qed
  next
    assume "length (filter isDigit rawCEP) \<noteq> 8"
    then show "Get lib s rawCEP w = (Inl ErrInvalidCEP, w)" by (rule Get_invalid)
  qed
  have src: "\<exists>e. collaborator_returns lib s (filter isDigit rawCEP) e \<and> errors_Is e ErrInvalidCEP"
    if "length (filter isDigit rawCEP) = 8 \<and> fst (Get lib s rawCEP w) = Inl x
        \<and> errors_Is x ErrInvalidCEP" for x
    using that Get_InvalidKey_source [of rawCEP lib s w x] by blast
  have iff: "(fst (Get lib s rawCEP w) = Inl ErrInvalidCEP \<longleftrightarrow> length (filter isDigit rawCEP) \<noteq> 8)
        \<and> ((\<exists>err. fst (Get lib s rawCEP w) = Inl err \<and> errors_Is err ErrInvalidCEP)
              \<longleftrightarrow> length (filter isDigit rawCEP) \<noteq> 8)"
    if clean: "\<forall>e. collaborator_returns lib s (filter isDigit rawCEP) e \<longrightarrow> \<not> errors_Is e ErrInvalidCEP"
  proof (cases "length (filter isDigit rawCEP) = 8")
    case True
    have none: "\<not> (fst (Get lib s rawCEP w) = Inl x \<and> errors_Is x ErrInvalidCEP)" for x
      using src [of x] clean True by blast
    from none [of ErrInvalidCEP] have "fst (Get lib s rawCEP w) \<noteq> Inl ErrInvalidCEP" by simp
    with none True show ?thesis by blast
  next
    case False
    from rej [OF False] have "fst (Get lib s rawCEP w) = Inl ErrInvalidCEP" by simp
    moreover have "errors_Is ErrInvalidCEP ErrInvalidCEP" by simp
    ultimately show ?thesis using False by blast
  qed
  have d: "(\<forall>q k. e = DBQuery q k \<longrightarrow> length k = 8 \<and> (\<forall>c\<in>set k. isDigit c))
        \<and> (\<forall>q k p t. e = DBExec q k p t \<longrightarrow> length k = 8 \<and> (\<forall>c\<in>set k. isDigit c))
        \<and> (\<forall>r. e = HTTPDo r \<longrightarrow>
              (\<exists>k. URL r = viaCepURL k \<and> length k = 8 \<and> (\<forall>c\<in>set k. isDigit c)))"
    if "e \<in> set (new_events w (snd (Get lib s rawCEP w)))"
  proof -
    from Get_events [OF that] obtain key where key: "normalizeCEP rawCEP = Inr key"
      and ev: "e = DBQuery (selectQuery s) key
        \<or> e = HTTPDo \<lparr>Method = ''GET'', URL = viaCepURL key\<rparr>
        \<or> e = BodyClose
        \<or> (\<exists>m. e = LogPrintf (logger s) m)
        \<or> (\<exists>p t. e = DBExec (upsertQuery s) key p t)" by blast
    from key have valid: "length key = 8 \<and> (\<forall>c\<in>set key. isDigit c)"
      by (auto simp: normalizeCEP_Inr)
    from ev valid show ?thesis by auto
  qed
  from rej a iff src [of err] d show ?thesis by blast
qed

theorem Get_InvalidKey_witness:
  "Get stubLib (testService (Inl ErrNoRows) None (Inl ErrNotFound) 50) ''12-345'' world0
     = (Inl ErrInvalidCEP, world0)
   \<and> length (filter isDigit ''12-345'') \<noteq> 8
   \<and> fst (Get stubLib (testService (Inl ErrNoRows) None (Inl ErrNotFound) 50) ''12345-678'' world0)
       \<noteq> Inl ErrInvalidCEP
   \<and> length (filter isDigit ''12345-678'') = 8
   \<and> (\<exists>e. collaborator_returns stubLib (testService (Inl ErrNoRows) None (Inl ErrInvalidCEP) 50)
              ''12345678'' e \<and> errors_Is e ErrInvalidCEP)
   \<and> DBQuery ''SELECT payload, updated_at FROM ceps WHERE cep = $1'' ''12345678''
       \<in> set (new_events world0
            (snd (Get stubLib (testService (Inl ErrNoRows) None (Inl ErrNotFound) 50) ''12345-678'' world0)))
   \<and> length ''12345678'' = 8 \<and> filter isDigit ''12345678'' = ''12345678''"
proof -
  let ?s = "testService (Inl ErrNoRows) None (Inl ErrNotFound) 50"
  let ?bad = "testService (Inl ErrNoRows) None (Inl ErrInvalidCEP) 50"
  let ?e = "DBQuery ''SELECT payload, updated_at FROM ceps WHERE cep = $1'' ''12345678''"
  have short: "length (filter isDigit ''12-345'') \<noteq> 8"
    by (simp add: isDigit_def)
  have full: "length (filter isDigit ''12345-678'') = 8" "filter isDigit ''12345-678'' = ''12345678''"
    "filter isDigit ''12345678'' = ''12345678''"
    by (simp_all add: isDigit_def)
  from Get_InvalidKey [of "''12-345''" stubLib ?s world0] short
  have a: "Get stubLib ?s ''12-345'' world0 = (Inl ErrInvalidCEP, world0)" by blast
  have clean: "\<forall>e. collaborator_returns stubLib ?s (filter isDigit ''12345-678'') e
      \<longrightarrow> \<not> errors_Is e ErrInvalidCEP"
    by (auto simp: collaborator_returns_def full stubLib_def stubDB_def stubHTTPClient_def
        testService_def NewService_def)
  from Get_InvalidKey [of "''12345-678''" stubLib ?s world0] clean full(1)
  have b: "fst (Get stubLib ?s ''12345-678'' world0) \<noteq> Inl ErrInvalidCEP" by blast
  have bad: "length (filter isDigit ''12345678'') = 8
      \<and> fst (Get stubLib ?bad ''12345678'' world0) = Inl ErrInvalidCEP
      \<and> errors_Is ErrInvalidCEP ErrInvalidCEP"
    by (simp add: stub_defs op_defs)
  from Get_InvalidKey [of "''12345678''" stubLib ?bad world0 ErrInvalidCEP] bad
  have "\<exists>e. collaborator_returns stubLib ?bad (filter isDigit ''12345678'') e \<and> errors_Is e ErrInvalidCEP"
    by blast
  then have c: "\<exists>e. collaborator_returns stubLib ?bad ''12345678'' e \<and> errors_Is e ErrInvalidCEP"
    by (simp only: full(3))
  have ev: "?e \<in> set (new_events world0 (snd (Get stubLib ?s ''12345-678'' world0)))"
    by (simp add: stub_defs op_defs new_events_def)
  from Get_InvalidKey [of "''12345-678''" stubLib ?s world0 _ ?e] ev
  have len: "length ''12345678'' = 8" by blast
  from a short b full(1,3) c ev len show ?thesis by blast
qed

text \<open>
  The claim as the specification words it (Get fails with \<^verbatim>\<open>ErrInvalidCEP\<close> exactly when
  the stripped input does not have 8 digits) fails: with an empty store and a client
  whose \<^verbatim>\<open>Do\<close> returns \<^verbatim>\<open>ErrInvalidCEP\<close>, Get on the 8 digits \<^verbatim>\<open>12345678\<close> returns that
  error, which the provider fetch passes on as it is.
\<close>

theorem Get_InvalidKey_counterexample:
  "fst (Get stubLib (testService (Inl ErrNoRows) None (Inl ErrInvalidCEP) 50) ''12345678'' world0)
     = Inl ErrInvalidCEP
   \<and> length (filter isDigit ''12345678'') = 8"
  by (simp add: stub_defs op_defs)

subsection \<open>The clock\<close>

text \<open>
  Claim C8, as the code has it. The staleness check and the write-back timestamp read
  the clock in the field \<^verbatim>\<open>now\<close> of the service, and \<^verbatim>\<open>NewService\<close>, which has no clock
  parameter, always sets that field to \<^verbatim>\<open>time.Now\<close>.
\<close>

theorem NewService_clock:
  "now (NewService d c ttl lg) = time_Now
   \<and> (QueryRowContext (db s) (selectQuery s) key = Inr (payload, updatedAt) \<and> 0 < sint (cacheTTL s) \<longrightarrow>
        (fst (loadFromCache lib s key w) = Inr None
           \<longleftrightarrow> sint (cacheTTL s) < sint (time_Sub (fst (now s (clock w))) updatedAt)))
   \<and> (json_Marshal lib data = Inr p \<longrightarrow>
        new_events w (snd (saveToCache lib s key data w))
          = [DBExec (upsertQuery s) key p (time_UTC (fst (now s (clock w))))])"
proof -
  have a: "now (NewService d c ttl lg) = time_Now"
    by (simp add: NewService_def)
  have b: "fst (loadFromCache lib s key w) = Inr None
           \<longleftrightarrow> sint (cacheTTL s) < sint (time_Sub (fst (now s (clock w))) updatedAt)"
    if "QueryRowContext (db s) (selectQuery s) key = Inr (payload, updatedAt) \<and> 0 < sint (cacheTTL s)"
    using that
    by (auto simp: loadFromCache_def Let_def call_now_def clock_emit split: prod.splits sum.splits)
  have c: "new_events w (snd (saveToCache lib s key data w))
          = [DBExec (upsertQuery s) key p (time_UTC (fst (now s (clock w))))]"
    if "json_Marshal lib data = Inr p"
    using that
    by (simp add: saveToCache_def Let_def call_now_def new_events_def emit_def split: prod.splits)
  from a b c show ?thesis by blast
qed

theorem NewService_clock_witness:
  "new_events world0 (snd (saveToCache stubLib
      ((testService (Inl ErrNoRows) None (Inl ErrNotFound) 50)\<lparr>now := (\<lambda>c. (\<lparr>instant = 5, loc = Local\<rparr>, c))\<rparr>)
      ''12345678'' cachedResponse world0))
     = [DBExec (upsertQuery (testService (Inl ErrNoRows) None (Inl ErrNotFound) 50)) ''12345678''
          cachedPayload \<lparr>instant = 5, loc = UTC\<rparr>]
   \<and> fst (loadFromCache stubLib
      ((testService (Inr (cachedPayload, \<lparr>instant = 990, loc = UTC\<rparr>)) None (Inl ErrNotFound) 50)
         \<lparr>now := (\<lambda>c. (\<lparr>instant = 2000, loc = Local\<rparr>, c))\<rparr>)
      ''12345678'' world0) = Inr None"
proof -
  let ?s = "(testService (Inl ErrNoRows) None (Inl ErrNotFound) 50)\<lparr>now := (\<lambda>c. (\<lparr>instant = 5, loc = Local\<rparr>, c))\<rparr>"
  let ?s' = "(testService (Inr (cachedPayload, \<lparr>instant = 990, loc = UTC\<rparr>)) None (Inl ErrNotFound) 50)
         \<lparr>now := (\<lambda>c. (\<lparr>instant = 2000, loc = Local\<rparr>, c))\<rparr>"
  have m: "json_Marshal stubLib cachedResponse = Inr cachedPayload"
    by (simp add: stub_defs)
  from NewService_clock [where lib = stubLib and data = cachedResponse and p = cachedPayload
      and s = ?s and key = "''12345678''" and w = world0] m
  have "new_events world0 (snd (saveToCache stubLib ?s ''12345678'' cachedResponse world0))
     = [DBExec (upsertQuery ?s) ''12345678'' cachedPayload
          (time_UTC (fst (now ?s (clock world0))))]" by blast
  then have a: "new_events world0 (snd (saveToCache stubLib ?s ''12345678'' cachedResponse world0))
     = [DBExec (upsertQuery (testService (Inl ErrNoRows) None (Inl ErrNotFound) 50)) ''12345678''
          cachedPayload \<lparr>instant = 5, loc = UTC\<rparr>]"
    by (simp add: time_UTC_def upsertQuery_def)
  have row: "QueryRowContext (db ?s') (selectQuery ?s') ''12345678''
      = Inr (cachedPayload, \<lparr>instant = 990, loc = UTC\<rparr>) \<and> 0 < sint (cacheTTL ?s')"
    by (simp add: stub_defs op_defs)
  have old: "sint (cacheTTL ?s') < sint (time_Sub (fst (now ?s' (clock world0))) \<lparr>instant = 990, loc = UTC\<rparr>)"
    by (simp add: stub_defs op_defs)
  from NewService_clock [where lib = stubLib and s = ?s' and key = "''12345678''" and w = world0
      and payload = cachedPayload and updatedAt = "\<lparr>instant = 990, loc = UTC\<rparr>"] row old
  have b: "fst (loadFromCache stubLib ?s' ''12345678'' world0) = Inr None" by blast
  from a b show ?thesis by simp
qed

text \<open>
  The claim as the specification words it (a caller of \<^verbatim>\<open>NewService\<close> can substitute a
  clock other than the ambient time) fails: when the system clock shows instant 1000,
  no arguments of \<^verbatim>\<open>NewService\<close> give a service whose clock shows instant 0.
\<close>

theorem NewService_clock_counterexample:
  "\<not> (\<exists>d c ttl lg.
        fst (now (NewService d c ttl lg) \<lparr>wallclock = (\<lambda>n. \<lparr>instant = 1000, loc = Local\<rparr>), ticks = 0\<rparr>)
          = \<lparr>instant = 0, loc = UTC\<rparr>)"
  by (simp add: NewService_def time_Now_def)

end
